theory Spec2Isabelle
  imports Main "HOL-Library.Sublist"
begin

section \<open>Constants declared outside the two source files\<close>

text \<open>
  \<^verbatim>\<open>climate.py\<close> imports \<^verbatim>\<open>API_DELAY\<close>, \<^verbatim>\<open>CONSECUTIVE_FAILURE_THRESHOLD\<close> and
  \<^verbatim>\<open>UNAVAILABLE_THRESH_SEC\<close> from the package's \<^verbatim>\<open>const.py\<close>, and \<^verbatim>\<open>STATUS_SUCCESS\<close>
  and \<^verbatim>\<open>Attributes.INTRUDER_LOCKOUT\<close> from the vendor client. Neither declaration is in
  the sources, so every operation takes their values as a parameter.
\<close>

record constants =
  API_DELAY :: int
  CONSECUTIVE_FAILURE_THRESHOLD :: int
  UNAVAILABLE_THRESH_SEC :: int
  STATUS_SUCCESS :: int
  INTRUDER_LOCKOUT :: string

section \<open>Enumerations\<close>

text \<open>
  The members of the vendor's \<^verbatim>\<open>OperationMode\<close> that \<^verbatim>\<open>climate.py\<close> names. Operating
  modes and fan speeds live in the one class, so a fan-speed table can be asked for an
  operating mode; the lookup then fails as a missing dictionary key does.
\<close>

datatype operation_mode =
    MODE_COOL | MODE_HEAT | MODE_FAN | MODE_DRY | MODE_AUTO
  | FAN_SPEED_AUTO | FAN_SPEED_LOW | FAN_SPEED_MED | FAN_SPEED_HIGH

datatype feature = V_SWING | H_SWING

text \<open>The host's climate constants that \<^verbatim>\<open>climate.py\<close> imports.\<close>

datatype fan_mode = FAN_AUTO | FAN_HIGH | FAN_LOW | FAN_MEDIUM

datatype swing_mode = SWING_BOTH | SWING_HORIZONTAL | SWING_OFF | SWING_VERTICAL

datatype hvac_mode =
    HVACMode_OFF | HVACMode_HEAT | HVACMode_COOL | HVACMode_DRY
  | HVACMode_FAN_ONLY | HVACMode_AUTO

datatype hvac_action =
    HVACAction_OFF | HVACAction_COOLING | HVACAction_HEATING
  | HVACAction_FAN | HVACAction_DRYING

datatype climate_entity_feature = TARGET_TEMPERATURE | SWING_MODE | FAN_MODE | PRESET_MODE

text \<open>
  Modelled from the spec: \<^verbatim>\<open>PRESET_NONE\<close> and \<^verbatim>\<open>PRESET_SHABAT\<close> are declared in the
  missing \<^verbatim>\<open>const.py\<close>; they are the two preset modes, chosen by the device's boolean
  special-schedule flag.
\<close>

datatype preset_mode = PRESET_NONE | PRESET_SHABAT

section \<open>Translation tables\<close>

text \<open>
  The five module-level dictionaries of \<^verbatim>\<open>climate.py\<close>, as partial maps: a key that is
  absent maps to \<open>None\<close>, where the subscript of the source raises \<^verbatim>\<open>KeyError\<close>.
\<close>

definition FAN_ELECTRA_TO_HASS :: "operation_mode \<rightharpoonup> fan_mode" where
  "FAN_ELECTRA_TO_HASS =
     [FAN_SPEED_AUTO \<mapsto> FAN_AUTO,
      FAN_SPEED_LOW \<mapsto> FAN_LOW,
      FAN_SPEED_MED \<mapsto> FAN_MEDIUM,
      FAN_SPEED_HIGH \<mapsto> FAN_HIGH]"

definition FAN_HASS_TO_ELECTRA :: "fan_mode \<rightharpoonup> operation_mode" where
  "FAN_HASS_TO_ELECTRA =
     [FAN_AUTO \<mapsto> FAN_SPEED_AUTO,
      FAN_LOW \<mapsto> FAN_SPEED_LOW,
      FAN_MEDIUM \<mapsto> FAN_SPEED_MED,
      FAN_HIGH \<mapsto> FAN_SPEED_HIGH]"

definition HVAC_MODE_ELECTRA_TO_HASS :: "operation_mode \<rightharpoonup> hvac_mode" where
  "HVAC_MODE_ELECTRA_TO_HASS =
     [MODE_COOL \<mapsto> HVACMode_COOL,
      MODE_HEAT \<mapsto> HVACMode_HEAT,
      MODE_FAN \<mapsto> HVACMode_FAN_ONLY,
      MODE_DRY \<mapsto> HVACMode_DRY,
      MODE_AUTO \<mapsto> HVACMode_AUTO]"

definition HVAC_MODE_HASS_TO_ELECTRA :: "hvac_mode \<rightharpoonup> operation_mode" where
  "HVAC_MODE_HASS_TO_ELECTRA =
     [HVACMode_COOL \<mapsto> MODE_COOL,
      HVACMode_HEAT \<mapsto> MODE_HEAT,
      HVACMode_FAN_ONLY \<mapsto> MODE_FAN,
      HVACMode_DRY \<mapsto> MODE_DRY,
      HVACMode_AUTO \<mapsto> MODE_AUTO]"

definition HVAC_ACTION_ELECTRA_TO_HASS :: "operation_mode \<rightharpoonup> hvac_action" where
  "HVAC_ACTION_ELECTRA_TO_HASS =
     [MODE_COOL \<mapsto> HVACAction_COOLING,
      MODE_HEAT \<mapsto> HVACAction_HEATING,
      MODE_FAN \<mapsto> HVACAction_FAN,
      MODE_DRY \<mapsto> HVACAction_DRYING]"

section \<open>The vendor device\<close>

text \<open>
  Modelled from the spec: the class \<^verbatim>\<open>ElectraAirConditioner\<close> belongs to the vendor client.
  Following section 3 of the specification it carries an identity, the mutable operating
  state read by the getters that \<^verbatim>\<open>climate.py\<close> calls (one field for each getter, named
  after it), and the age of the last contact, from which connectivity is derived.
\<close>

record device =
  name :: string
  mac :: string
  model :: string
  manufactor :: string
  features :: "feature list"
  is_on :: bool
  get_mode :: operation_mode
  get_fan_speed :: operation_mode
  get_temperature :: int
  get_sensor_temperature :: int
  is_horizontal_swing :: bool
  is_vertical_swing :: bool
  get_shabat_mode :: bool
  last_contact_age :: int

definition is_disconnected :: "device \<Rightarrow> int \<Rightarrow> bool" where
  "is_disconnected d thresh_sec \<longleftrightarrow> thresh_sec < last_contact_age d"

definition set_fan_speed :: "operation_mode \<Rightarrow> device \<Rightarrow> device" where
  "set_fan_speed v d = d\<lparr>get_fan_speed := v\<rparr>"

definition set_mode :: "operation_mode \<Rightarrow> device \<Rightarrow> device" where
  "set_mode v d = d\<lparr>get_mode := v\<rparr>"

definition turn_on :: "device \<Rightarrow> device" where
  "turn_on d = d\<lparr>is_on := True\<rparr>"

definition turn_off :: "device \<Rightarrow> device" where
  "turn_off d = d\<lparr>is_on := False\<rparr>"

definition set_temperature :: "int \<Rightarrow> device \<Rightarrow> device" where
  "set_temperature v d = d\<lparr>get_temperature := v\<rparr>"

definition set_horizontal_swing :: "bool \<Rightarrow> device \<Rightarrow> device" where
  "set_horizontal_swing v d = d\<lparr>is_horizontal_swing := v\<rparr>"

definition set_vertical_swing :: "bool \<Rightarrow> device \<Rightarrow> device" where
  "set_vertical_swing v d = d\<lparr>is_vertical_swing := v\<rparr>"

definition set_shabat_mode :: "bool \<Rightarrow> device \<Rightarrow> device" where
  "set_shabat_mode v d = d\<lparr>get_shabat_mode := v\<rparr>"

section \<open>The vendor API client, exceptions and effects\<close>

text \<open>
  \<^verbatim>\<open>ElectraApiError\<close> carries the text that \<^verbatim>\<open>f"{exp}"\<close> renders. An acknowledgment is the
  client's decoded reply; the record keeps what the code reads from it:
  \<^verbatim>\<open>resp[STATUS]\<close>, \<^verbatim>\<open>resp[DATA][RES]\<close> and \<^verbatim>\<open>resp[DATA][TOKEN]\<close> (the token is there
  only in a reply that grants one).
\<close>

datatype electra_api_error = ElectraApiError (str: string)

record response =
  ATTR_STATUS :: int
  ATTR_RES :: int
  ATTR_TOKEN :: "string option"

text \<open>
  One call of the client is a function from its arguments to what the call does: raise
  \<^verbatim>\<open>ElectraApiError\<close> (\<open>Inl\<close>) or return. The field \<open>api_m\<close> is the method \<^verbatim>\<open>m\<close> of
  \<^verbatim>\<open>ElectraAPI\<close>. \<^verbatim>\<open>get_last_telemtry\<close> refreshes the device object it is given and so
  returns the refreshed device.
\<close>

record electra_api =
  api_get_devices :: "electra_api_error + device list"
  api_get_last_telemtry :: "device \<Rightarrow> electra_api_error + device"
  api_set_state :: "device \<Rightarrow> electra_api_error + response"
  api_generate_new_token :: "string option \<Rightarrow> string option \<Rightarrow> electra_api_error + response"
  api_validate_one_time_password ::
    "string option \<Rightarrow> string option \<Rightarrow> string option \<Rightarrow> electra_api_error + response"

text \<open>
  The exceptions that leave a method, by class (their message texts are not kept), and
  how a call ends: it returns, or it raises.
\<close>

datatype exn = HomeAssistantError | ConfigEntryAuthFailed | ConfigEntryNotReady | KeyError

datatype outcome = Returned | Raised exn

text \<open>
  What a method does to the outside, in order: the calls to the vendor client and the
  request to the host to store the entity's display state. Logging is left out.
\<close>

datatype effect = Call_get_last_telemtry | Call_set_state | Async_write_ha_state

section \<open>The climate entity\<close>

text \<open>
  The attributes of \<^verbatim>\<open>ElectraClimate\<close> (the leading underscore of the source's names is
  dropped). A display attribute that has not been assigned is Python's \<^verbatim>\<open>None\<close>.
\<close>

record entity =
  electra_ac_device :: device
  attr_name :: string
  attr_unique_id :: string
  attr_supported_features :: "climate_entity_feature set"
  attr_fan_modes :: "fan_mode list"
  attr_target_temperature_step :: int
  attr_swing_modes :: "swing_mode list"
  attr_hvac_modes :: "hvac_mode list"
  attr_preset_modes :: "preset_mode list"
  last_state_update :: int
  consecutive_failures :: int
  attr_available :: bool
  skip_update :: bool
  available :: bool
  attr_fan_mode :: "fan_mode option"
  attr_current_temperature :: "int option"
  attr_target_temperature :: "int option"
  attr_hvac_mode :: "hvac_mode option"
  attr_hvac_action :: "hvac_action option"
  attr_swing_mode :: "swing_mode option"
  attr_preset_mode :: "preset_mode option"

text \<open>\<^verbatim>\<open>ElectraClimate.__init__\<close>, without the bounds and unit it copies from the host.\<close>

definition init_swing_modes :: "device \<Rightarrow> swing_mode list" where
  "init_swing_modes d =
     (let s0 = [];
          s1 = (if V_SWING \<in> set (features d) then s0 @ [SWING_VERTICAL] else s0);
          s2 = (if H_SWING \<in> set (features d) then s1 @ [SWING_HORIZONTAL] else s1);
          s3 = (if SWING_HORIZONTAL \<in> set s2 \<and> SWING_VERTICAL \<in> set s2
                then s2 @ [SWING_BOTH] else s2)
      in if s3 \<noteq> [] then s3 @ [SWING_OFF] else s3)"

definition init :: "constants \<Rightarrow> device \<Rightarrow> entity" where
  "init c d =
     \<lparr> electra_ac_device = d,
       attr_name = name d,
       attr_unique_id = mac d,
       attr_supported_features = {TARGET_TEMPERATURE, SWING_MODE, FAN_MODE, PRESET_MODE},
       attr_fan_modes = [FAN_AUTO, FAN_HIGH, FAN_MEDIUM, FAN_LOW],
       attr_target_temperature_step = 1,
       attr_swing_modes = init_swing_modes d,
       attr_hvac_modes =
         [HVACMode_OFF, HVACMode_HEAT, HVACMode_COOL, HVACMode_DRY,
          HVACMode_FAN_ONLY, HVACMode_AUTO],
       attr_preset_modes = [PRESET_NONE, PRESET_SHABAT],
       last_state_update = 0,
       consecutive_failures = 0,
       attr_available = (\<not> is_disconnected d (UNAVAILABLE_THRESH_SEC c)),
       skip_update = True,
       available = True,
       attr_fan_mode = None,
       attr_current_temperature = None,
       attr_target_temperature = None,
       attr_hvac_mode = None,
       attr_hvac_action = None,
       attr_swing_mode = None,
       attr_preset_mode = None \<rparr>"

text \<open>
  \<^verbatim>\<open>_update_device_attrs\<close>: the assignments run in the source's order, so a failing table
  lookup leaves the attributes assigned before it in place and raises \<^verbatim>\<open>KeyError\<close>.
\<close>

definition update_device_attrs :: "entity \<Rightarrow> entity \<times> outcome" where
  "update_device_attrs e =
     (let d = electra_ac_device e in
      (case FAN_ELECTRA_TO_HASS (get_fan_speed d) of
         None \<Rightarrow> (e, Raised KeyError)
       | Some f \<Rightarrow>
          (let e1 = e\<lparr>attr_fan_mode := Some f,
                      attr_current_temperature := Some (get_sensor_temperature d),
                      attr_target_temperature := Some (get_temperature d)\<rparr>
           in
           (case (if \<not> is_on d then Some HVACMode_OFF
                  else HVAC_MODE_ELECTRA_TO_HASS (get_mode d)) of
              None \<Rightarrow> (e1, Raised KeyError)
            | Some m \<Rightarrow>
               (let e2 = e1\<lparr>attr_hvac_mode := Some m\<rparr> in
                (case (if get_mode d = MODE_AUTO then Some None
                       else if \<not> is_on d then Some (Some HVACAction_OFF)
                       else map_option Some (HVAC_ACTION_ELECTRA_TO_HASS (get_mode d))) of
                   None \<Rightarrow> (e2, Raised KeyError)
                 | Some a \<Rightarrow>
                    (e2\<lparr>attr_hvac_action := a,
                        attr_swing_mode :=
                          Some (if is_horizontal_swing d \<and> is_vertical_swing d
                                then SWING_BOTH
                                else if is_horizontal_swing d then SWING_HORIZONTAL
                                else if is_vertical_swing d then SWING_VERTICAL
                                else SWING_OFF),
                        attr_preset_mode :=
                          Some (if get_shabat_mode d then PRESET_SHABAT else PRESET_NONE)\<rparr>,
                     Returned)))))))"

text \<open>
  \<^verbatim>\<open>async_update\<close>, one poll. \<open>now\<close> is what \<^verbatim>\<open>int(time.time())\<close> reads. \<open>try_body\<close> is
  the body of the \<^verbatim>\<open>try\<close>: it ends by the exception of the client (\<open>Inl\<close>), by the early
  \<^verbatim>\<open>return\<close> of a disconnected device, which leaves the method without running the
  \<^verbatim>\<open>else\<close> clause (\<open>Inr (e', True)\<close>), or by reaching its end (\<open>Inr (e', False)\<close>).
\<close>

definition try_body ::
  "constants \<Rightarrow> electra_api \<Rightarrow> entity \<Rightarrow> (electra_api_error + entity \<times> bool) \<times> effect list" where
  "try_body c api e =
     (case (if skip_update e then (Inr (e\<lparr>skip_update := False\<rparr>), [])
            else (case api_get_last_telemtry api (electra_ac_device e) of
                    Inl exp \<Rightarrow> (Inl exp, [Call_get_last_telemtry])
                  | Inr d \<Rightarrow> (Inr (e\<lparr>electra_ac_device := d\<rparr>), [Call_get_last_telemtry]))) of
        (Inl exp, fx) \<Rightarrow> (Inl exp, fx)
      | (Inr e1, fx) \<Rightarrow>
          if is_disconnected (electra_ac_device e1) (UNAVAILABLE_THRESH_SEC c) then
            (Inr ((if available e1 then e1\<lparr>available := False\<rparr> else e1)
                    \<lparr>attr_available := False\<rparr>, True), fx)
          else
            (Inr (if \<not> available e1 then e1\<lparr>available := True, attr_available := True\<rparr>
                  else e1, False), fx))"

definition async_update ::
  "constants \<Rightarrow> electra_api \<Rightarrow> int \<Rightarrow> entity \<Rightarrow> entity \<times> effect list \<times> outcome" where
  "async_update c api now e =
     (if last_state_update e \<noteq> 0 \<and> now < last_state_update e + API_DELAY c then
        (e, [], Returned)
      else
        let e0 = e\<lparr>last_state_update := 0\<rparr> in
        case try_body c api e0 of
          (Inl exp, fx) \<Rightarrow>
            let e1 = e0\<lparr>consecutive_failures := consecutive_failures e0 + 1\<rparr> in
            if consecutive_failures e1 \<ge> CONSECUTIVE_FAILURE_THRESHOLD c then
              (e1, fx, Raised HomeAssistantError)
            else (e1, fx, Returned)
        | (Inr (e1, True), fx) \<Rightarrow> (e1, fx, Returned)
        | (Inr (e1, False), fx) \<Rightarrow>
            (case update_device_attrs (e1\<lparr>consecutive_failures := 0\<rparr>) of
               (e2, r) \<Rightarrow> (e2, fx, r)))"

text \<open>
  The setters. Each changes the device object and then sends it with
  \<^verbatim>\<open>_async_update_electra_ac_state\<close>, the command handler. \<^verbatim>\<open>err_message\<close> is the
  f-string both \<^verbatim>\<open>except\<close> clauses build before they look for the two markers with
  Python's \<^verbatim>\<open>in\<close>, the contiguous-substring test.
\<close>

definition err_message :: "electra_api_error \<Rightarrow> string" where
  "err_message exp = ''Error communicating with API: '' @ str exp"

definition async_update_electra_ac_state ::
  "constants \<Rightarrow> electra_api \<Rightarrow> int \<Rightarrow> entity \<Rightarrow> entity \<times> effect list \<times> outcome" where
  "async_update_electra_ac_state c api now e =
     (case api_set_state api (electra_ac_device e) of
        Inl exp \<Rightarrow>
          if sublist ''client error'' (err_message exp) then
            (e, [Call_set_state], Raised HomeAssistantError)
          else if sublist (INTRUDER_LOCKOUT c) (err_message exp) then
            (e, [Call_set_state], Raised ConfigEntryAuthFailed)
          else (e, [Call_set_state, Async_write_ha_state], Returned)
      | Inr resp \<Rightarrow>
          if \<not> (ATTR_STATUS resp = STATUS_SUCCESS c \<and> ATTR_RES resp = STATUS_SUCCESS c) then
            (e, [Call_set_state, Async_write_ha_state], Raised HomeAssistantError)
          else
            (case update_device_attrs e of
               (e1, Raised x) \<Rightarrow> (e1, [Call_set_state], Raised x)
             | (e1, Returned) \<Rightarrow>
                 (e1\<lparr>last_state_update := now\<rparr>,
                  [Call_set_state, Async_write_ha_state], Returned)))"

definition async_set_fan_mode ::
  "constants \<Rightarrow> electra_api \<Rightarrow> int \<Rightarrow> fan_mode \<Rightarrow> entity \<Rightarrow> entity \<times> effect list \<times> outcome" where
  "async_set_fan_mode c api now fan_mode e =
     (case FAN_HASS_TO_ELECTRA fan_mode of
        None \<Rightarrow> (e, [], Raised KeyError)
      | Some mode \<Rightarrow>
          async_update_electra_ac_state c api now
            (e\<lparr>electra_ac_device := set_fan_speed mode (electra_ac_device e)\<rparr>))"

definition async_set_hvac_mode ::
  "constants \<Rightarrow> electra_api \<Rightarrow> int \<Rightarrow> hvac_mode \<Rightarrow> entity \<Rightarrow> entity \<times> effect list \<times> outcome" where
  "async_set_hvac_mode c api now hvac_mode e =
     (if hvac_mode = HVACMode_OFF then
        async_update_electra_ac_state c api now
          (e\<lparr>electra_ac_device := turn_off (electra_ac_device e)\<rparr>)
      else
        (case HVAC_MODE_HASS_TO_ELECTRA hvac_mode of
           None \<Rightarrow> (e, [], Raised KeyError)
         | Some mode \<Rightarrow>
             async_update_electra_ac_state c api now
               (e\<lparr>electra_ac_device := turn_on (set_mode mode (electra_ac_device e))\<rparr>)))"

text \<open>The temperature arrives as the integer that \<^verbatim>\<open>int(kwargs[ATTR_TEMPERATURE])\<close> yields.\<close>

definition async_set_temperature ::
  "constants \<Rightarrow> electra_api \<Rightarrow> int \<Rightarrow> int \<Rightarrow> entity \<Rightarrow> entity \<times> effect list \<times> outcome" where
  "async_set_temperature c api now temperature e =
     async_update_electra_ac_state c api now
       (e\<lparr>electra_ac_device := set_temperature temperature (electra_ac_device e)\<rparr>)"

definition async_set_swing_mode ::
  "constants \<Rightarrow> electra_api \<Rightarrow> int \<Rightarrow> swing_mode \<Rightarrow> entity \<Rightarrow> entity \<times> effect list \<times> outcome" where
  "async_set_swing_mode c api now swing_mode e =
     (let d = electra_ac_device e;
          d1 = (if swing_mode = SWING_BOTH then
                  set_vertical_swing True (set_horizontal_swing True d)
                else if swing_mode = SWING_VERTICAL then
                  set_vertical_swing True (set_horizontal_swing False d)
                else if swing_mode = SWING_HORIZONTAL then
                  set_vertical_swing False (set_horizontal_swing True d)
                else set_vertical_swing False (set_horizontal_swing False d))
      in async_update_electra_ac_state c api now (e\<lparr>electra_ac_device := d1\<rparr>))"

definition async_set_preset_mode ::
  "constants \<Rightarrow> electra_api \<Rightarrow> int \<Rightarrow> preset_mode \<Rightarrow> entity \<Rightarrow> entity \<times> effect list \<times> outcome" where
  "async_set_preset_mode c api now preset_mode e =
     (let d = electra_ac_device e;
          d1 = (if preset_mode = PRESET_SHABAT then set_shabat_mode True d
                else set_shabat_mode False d)
      in async_update_electra_ac_state c api now (e\<lparr>electra_ac_device := d1\<rparr>))"

text \<open>The module-level \<^verbatim>\<open>get_devices\<close>, called when the platform is set up.\<close>

definition get_devices :: "constants \<Rightarrow> electra_api \<Rightarrow> exn + device list" where
  "get_devices c api =
     (case api_get_devices api of
        Inr devices \<Rightarrow> Inr devices
      | Inl exp \<Rightarrow>
          if sublist ''client error'' (err_message exp) then Inl ConfigEntryNotReady
          else if sublist (INTRUDER_LOCKOUT c) (err_message exp) then Inl ConfigEntryAuthFailed
          else Inl ConfigEntryNotReady)"

text \<open>
  The host calls \<^verbatim>\<open>async_update\<close> once per tick and goes on polling after a poll that
  raised. \<open>poll_cycles\<close> runs one poll for each clock reading and collects how each ended.
\<close>

fun poll_cycles ::
  "constants \<Rightarrow> electra_api \<Rightarrow> int list \<Rightarrow> entity \<Rightarrow> entity \<times> outcome list" where
  "poll_cycles c api [] e = (e, [])"
| "poll_cycles c api (now # ticks) e =
     (case async_update c api now e of
        (e1, fx, r) \<Rightarrow>
          (case poll_cycles c api ticks e1 of (e2, rs) \<Rightarrow> (e2, r # rs)))"

section \<open>The configuration flow\<close>

text \<open>
  The strings the flow uses as dictionary keys and step identifiers: the literals
  \<^verbatim>\<open>"base"\<close> and \<^verbatim>\<open>"user"\<close>, the host's \<^verbatim>\<open>CONF_TOKEN\<close>, and
  \<^verbatim>\<open>CONF_PHONE_NUMBER\<close>, \<^verbatim>\<open>CONF_OTP\<close> and \<^verbatim>\<open>CONF_IMEI\<close> of the missing \<^verbatim>\<open>const.py\<close>,
  taken as symbolic names. A dictionary written as a literal is the list of its items.
\<close>

datatype key = BASE | USER | CONF_PHONE_NUMBER | CONF_OTP | CONF_IMEI | CONF_TOKEN

type_synonym user_input = "(key \<times> string) list"

text \<open>
  What a step hands back to the host: a form to show (step, the required field of the
  schema with its default, the errors, the description placeholders), the entry to
  store (title and data), or the end of the flow with a reason.
\<close>

datatype flow_result =
    Show_form key "key \<times> string option" "(key \<times> string) list" "(string \<times> string) list option"
  | Create_entry "string option" "(key \<times> string option) list"
  | Abort string

text \<open>
  The attributes of \<^verbatim>\<open>ConfigFlow\<close>, \<^verbatim>\<open>None\<close> until a step assigns them, and the
  \<^verbatim>\<open>unique_id\<close> the host keeps for the flow. The client object \<^verbatim>\<open>_api\<close> is the
  parameter \<open>api\<close> of each step.
\<close>

record config_flow =
  phone_number :: "string option"
  description_placeholders :: "(string \<times> string) list option"
  otp :: "string option"
  imei :: "string option"
  token :: "string option"
  unique_id :: "string option"

definition config_flow_init :: config_flow where
  "config_flow_init =
     \<lparr> phone_number = None, description_placeholders = None, otp = None, imei = None,
       token = None, unique_id = None \<rparr>"

text \<open>\<^verbatim>\<open>user_input.get(k, dflt)\<close>.\<close>

definition dict_get :: "user_input \<Rightarrow> key \<Rightarrow> string \<Rightarrow> string" where
  "dict_get d k dflt = (case map_of d k of None \<Rightarrow> dflt | Some v \<Rightarrow> v)"

definition show_setup_form ::
  "config_flow \<Rightarrow> user_input option \<Rightarrow> (key \<times> string) list option \<Rightarrow> key \<Rightarrow> flow_result" where
  "show_setup_form flow user_input errors step_id =
     (let user_input1 = (case user_input of None \<Rightarrow> [] | Some u \<Rightarrow> u);
          schema = (if step_id = USER then
                      (CONF_PHONE_NUMBER, Some (dict_get user_input1 CONF_PHONE_NUMBER []))
                    else (CONF_OTP, Some (dict_get user_input1 CONF_OTP [])))
      in Show_form step_id schema (case errors of None \<Rightarrow> [] | Some es \<Rightarrow> es)
           (description_placeholders flow))"

definition show_otp_form ::
  "user_input option \<Rightarrow> (key \<times> string) list option \<Rightarrow> flow_result" where
  "show_otp_form user_input errors =
     Show_form CONF_OTP (CONF_OTP, None) (case errors of None \<Rightarrow> [] | Some es \<Rightarrow> es) None"

text \<open>
  \<^verbatim>\<open>_validate_one_time_password\<close> and \<^verbatim>\<open>async_step_one_time_password\<close>. A step returns the
  flow object as it leaves it, and either the result for the host or the exception that
  escapes (a subscript with a missing key).
\<close>

definition validate_one_time_password ::
  "constants \<Rightarrow> electra_api \<Rightarrow> user_input \<Rightarrow> config_flow \<Rightarrow> config_flow \<times> (exn + flow_result)" where
  "validate_one_time_password c api user_input flow =
     (case map_of user_input CONF_OTP of
        None \<Rightarrow> (flow, Inl KeyError)
      | Some v \<Rightarrow>
          (let flow1 = flow\<lparr>otp := Some v\<rparr> in
           (case api_validate_one_time_password api (otp flow1) (imei flow1)
                   (phone_number flow1) of
              Inl exp \<Rightarrow>
                (flow1, Inr (show_setup_form flow1 (Some user_input)
                               (Some [(BASE, ''cannot_connect'')]) CONF_OTP))
            | Inr resp \<Rightarrow>
                if ATTR_RES resp = STATUS_SUCCESS c then
                  (case ATTR_TOKEN resp of
                     None \<Rightarrow> (flow1, Inl KeyError)
                   | Some t \<Rightarrow>
                       (let flow2 = flow1\<lparr>token := Some t\<rparr> in
                        (flow2, Inr (Create_entry (phone_number flow2)
                                       [(CONF_TOKEN, token flow2),
                                        (CONF_IMEI, imei flow2),
                                        (CONF_PHONE_NUMBER, phone_number flow2)]))))
                else
                  (flow1, Inr (show_setup_form flow1 (Some user_input)
                                 (Some [(CONF_OTP, ''invalid_auth'')]) CONF_OTP)))))"

definition async_step_one_time_password ::
  "constants \<Rightarrow> electra_api \<Rightarrow> user_input option \<Rightarrow> (key \<times> string) list option \<Rightarrow>
     config_flow \<Rightarrow> config_flow \<times> (exn + flow_result)" where
  "async_step_one_time_password c api user_input errors flow =
     (let errors1 = (case errors of None \<Rightarrow> [] | Some es \<Rightarrow> es) in
      case user_input of
        None \<Rightarrow> (flow, Inr (show_otp_form user_input (Some errors1)))
      | Some u \<Rightarrow> validate_one_time_password c api u flow)"

text \<open>
  \<^verbatim>\<open>_validate_phone_number\<close> and \<^verbatim>\<open>async_step_user\<close>. \<open>new_imei\<close> is what
  \<^verbatim>\<open>generate_imei()\<close> returns. \<open>host_check\<close> stands for the host's
  \<^verbatim>\<open>async_set_unique_id\<close> followed by \<^verbatim>\<open>_abort_if_unique_id_configured\<close>: given the
  unique id it answers the reason for which the host ends the flow, if it does.
\<close>

definition validate_phone_number ::
  "constants \<Rightarrow> electra_api \<Rightarrow> (string \<Rightarrow> string option) \<Rightarrow> string \<Rightarrow> user_input \<Rightarrow>
     config_flow \<Rightarrow> config_flow \<times> (exn + flow_result)" where
  "validate_phone_number c api host_check new_imei user_input flow =
     (case map_of user_input CONF_PHONE_NUMBER of
        None \<Rightarrow> (flow, Inl KeyError)
      | Some v \<Rightarrow>
          (let flow1 = flow\<lparr>phone_number := Some v, imei := Some new_imei\<rparr> in
           (case (if unique_id flow1 = None
                  then (flow1\<lparr>unique_id := Some v\<rparr>, host_check v)
                  else (flow1, None)) of
              (flow2, Some reason) \<Rightarrow> (flow2, Inr (Abort reason))
            | (flow2, None) \<Rightarrow>
                (case api_generate_new_token api (phone_number flow2) (imei flow2) of
                   Inl exp \<Rightarrow>
                     (flow2, Inr (show_setup_form flow2 (Some user_input)
                                    (Some [(BASE, ''cannot_connect'')]) USER))
                 | Inr resp \<Rightarrow>
                     if ATTR_STATUS resp = STATUS_SUCCESS c
                        \<and> ATTR_RES resp \<noteq> STATUS_SUCCESS c then
                       (flow2, Inr (show_setup_form flow2 (Some user_input)
                                      (Some [(CONF_PHONE_NUMBER, ''invalid_phone_number'')])
                                      USER))
                     else async_step_one_time_password c api None None flow2))))"

definition async_step_user ::
  "constants \<Rightarrow> electra_api \<Rightarrow> (string \<Rightarrow> string option) \<Rightarrow> string \<Rightarrow> user_input option \<Rightarrow>
     config_flow \<Rightarrow> config_flow \<times> (exn + flow_result)" where
  "async_step_user c api host_check new_imei user_input flow =
     (case user_input of
        None \<Rightarrow> (flow, Inr (show_setup_form flow user_input (Some []) USER))
      | Some u \<Rightarrow> validate_phone_number c api host_check new_imei u flow)"

section \<open>Concrete inputs\<close>

text \<open>
  Values at which the theorems below are instantiated: a choice of constants, a connected
  device that is cooling with both swing axes on, the same device out of contact, and
  clients whose calls succeed or fail.
\<close>

definition ex_constants :: constants where
  "ex_constants =
     \<lparr> API_DELAY = 5, CONSECUTIVE_FAILURE_THRESHOLD = 4, UNAVAILABLE_THRESH_SEC = 120,
       STATUS_SUCCESS = 0, INTRUDER_LOCKOUT = ''Intruder lockout'' \<rparr>"

definition ex_device :: device where
  "ex_device =
     \<lparr> name = ''Salon'', mac = ''a0b1c2d3e4f5'', model = ''AC'', manufactor = ''Electra'',
       features = [V_SWING, H_SWING], is_on = True, get_mode = MODE_COOL,
       get_fan_speed = FAN_SPEED_LOW, get_temperature = 24, get_sensor_temperature = 27,
       is_horizontal_swing = True, is_vertical_swing = True, get_shabat_mode = False,
       last_contact_age = 10 \<rparr>"

definition ex_device_lost :: device where
  "ex_device_lost = ex_device\<lparr>last_contact_age := 900\<rparr>"

definition ex_response :: "int \<Rightarrow> int \<Rightarrow> string option \<Rightarrow> response" where
  "ex_response status res tok = \<lparr> ATTR_STATUS = status, ATTR_RES = res, ATTR_TOKEN = tok \<rparr>"

definition ex_api ::
  "(electra_api_error + device) \<Rightarrow> (electra_api_error + response) \<Rightarrow> electra_api" where
  "ex_api telemetry reply =
     \<lparr> api_get_devices = Inr [ex_device],
       api_get_last_telemtry = (\<lambda>d. telemetry),
       api_set_state = (\<lambda>d. reply),
       api_generate_new_token = (\<lambda>phone imei. reply),
       api_validate_one_time_password = (\<lambda>otp imei phone. reply) \<rparr>"

text \<open>The entity of \<open>ex_device\<close> as its first poll, which fetches nothing, leaves it.\<close>

definition ex_entity :: entity where
  "ex_entity =
     fst (async_update ex_constants (ex_api (Inr ex_device) (Inr (ex_response 0 0 None))) 1000
            (init ex_constants ex_device))"

section \<open>Properties\<close>

subsection \<open>Facts about the tables and the concrete inputs\<close>

lemma dom_FAN_ELECTRA_TO_HASS:
  "dom FAN_ELECTRA_TO_HASS = {FAN_SPEED_AUTO, FAN_SPEED_LOW, FAN_SPEED_MED, FAN_SPEED_HIGH}"
  by (auto simp: FAN_ELECTRA_TO_HASS_def)

lemma dom_FAN_HASS_TO_ELECTRA:
  "dom FAN_HASS_TO_ELECTRA = {FAN_AUTO, FAN_LOW, FAN_MEDIUM, FAN_HIGH}"
  by (auto simp: FAN_HASS_TO_ELECTRA_def)

lemma dom_HVAC_MODE_ELECTRA_TO_HASS:
  "dom HVAC_MODE_ELECTRA_TO_HASS = {MODE_COOL, MODE_HEAT, MODE_FAN, MODE_DRY, MODE_AUTO}"
  by (auto simp: HVAC_MODE_ELECTRA_TO_HASS_def)

lemma dom_HVAC_MODE_HASS_TO_ELECTRA:
  "dom HVAC_MODE_HASS_TO_ELECTRA =
     {HVACMode_COOL, HVACMode_HEAT, HVACMode_FAN_ONLY, HVACMode_DRY, HVACMode_AUTO}"
  by (auto simp: HVAC_MODE_HASS_TO_ELECTRA_def)

lemma fan_hass_round_trip:
  "f \<in> dom FAN_HASS_TO_ELECTRA \<Longrightarrow>
     Option.bind (FAN_HASS_TO_ELECTRA f) FAN_ELECTRA_TO_HASS = Some f"
  unfolding dom_FAN_HASS_TO_ELECTRA
  by (auto simp: FAN_HASS_TO_ELECTRA_def FAN_ELECTRA_TO_HASS_def)

lemma fan_electra_round_trip:
  "v \<in> dom FAN_ELECTRA_TO_HASS \<Longrightarrow>
     Option.bind (FAN_ELECTRA_TO_HASS v) FAN_HASS_TO_ELECTRA = Some v"
  unfolding dom_FAN_ELECTRA_TO_HASS
  by (auto simp: FAN_HASS_TO_ELECTRA_def FAN_ELECTRA_TO_HASS_def)

lemma hvac_hass_round_trip:
  "m \<in> dom HVAC_MODE_HASS_TO_ELECTRA \<Longrightarrow>
     Option.bind (HVAC_MODE_HASS_TO_ELECTRA m) HVAC_MODE_ELECTRA_TO_HASS = Some m"
  unfolding dom_HVAC_MODE_HASS_TO_ELECTRA
  by (auto simp: HVAC_MODE_HASS_TO_ELECTRA_def HVAC_MODE_ELECTRA_TO_HASS_def)

lemma hvac_electra_round_trip:
  "w \<in> dom HVAC_MODE_ELECTRA_TO_HASS \<Longrightarrow>
     Option.bind (HVAC_MODE_ELECTRA_TO_HASS w) HVAC_MODE_HASS_TO_ELECTRA = Some w"
  unfolding dom_HVAC_MODE_ELECTRA_TO_HASS
  by (auto simp: HVAC_MODE_HASS_TO_ELECTRA_def HVAC_MODE_ELECTRA_TO_HASS_def)

lemma init_fan_modes: "attr_fan_modes (init c d) = [FAN_AUTO, FAN_HIGH, FAN_MEDIUM, FAN_LOW]"
  by (simp add: init_def)

lemma init_hvac_modes:
  "attr_hvac_modes (init c d) =
     [HVACMode_OFF, HVACMode_HEAT, HVACMode_COOL, HVACMode_DRY, HVACMode_FAN_ONLY,
      HVACMode_AUTO]"
  by (simp add: init_def)

lemma init_fields:
  "electra_ac_device (init c d) = d"
  "last_state_update (init c d) = 0"
  "consecutive_failures (init c d) = 0"
  "skip_update (init c d) = True"
  "available (init c d) = True"
  by (simp_all add: init_def)

lemma ex_api_set_state: "api_set_state (ex_api t r) d = r"
  by (simp add: ex_api_def)

lemma ex_api_get_last_telemtry: "api_get_last_telemtry (ex_api t r) d = t"
  by (simp add: ex_api_def)

lemma ex_api_validate_one_time_password:
  "api_validate_one_time_password (ex_api t r) a b p = r"
  by (simp add: ex_api_def)

lemma ex_api_generate_new_token: "api_generate_new_token (ex_api t r) a b = r"
  by (simp add: ex_api_def)

lemma ex_constants_fields:
  "API_DELAY ex_constants = 5"
  "CONSECUTIVE_FAILURE_THRESHOLD ex_constants = 4"
  "UNAVAILABLE_THRESH_SEC ex_constants = 120"
  "STATUS_SUCCESS ex_constants = 0"
  "INTRUDER_LOCKOUT ex_constants = ''Intruder lockout''"
  by (simp_all add: ex_constants_def)

lemma ex_device_fields:
  "is_on ex_device" "get_mode ex_device = MODE_COOL" "get_fan_speed ex_device = FAN_SPEED_LOW"
  "is_horizontal_swing ex_device" "is_vertical_swing ex_device"
  "\<not> is_disconnected ex_device (UNAVAILABLE_THRESH_SEC ex_constants)"
  "is_disconnected ex_device_lost (UNAVAILABLE_THRESH_SEC ex_constants)"
  by (simp_all add: ex_device_def ex_device_lost_def ex_constants_def is_disconnected_def)

subsection \<open>The translation tables\<close>

text \<open>
  C5. The fan-mode and HVAC-mode tables are inverse to each other on the values they
  support. The host fan modes the entity offers are exactly the keys of
  \<^verbatim>\<open>FAN_HASS_TO_ELECTRA\<close>, and the HVAC modes it offers, \<^verbatim>\<open>HVACMode.OFF\<close> apart (which
  \<^verbatim>\<open>async_set_hvac_mode\<close> handles without the table), are exactly the keys of
  \<^verbatim>\<open>HVAC_MODE_HASS_TO_ELECTRA\<close>. Translating a supported value to the other side and back
  (a subscript of a subscript, which fails if either key is missing) gives the value
  again, from the host side and from the vendor side.
\<close>

theorem translation_tables_round_trip:
  "set (attr_fan_modes (init c d)) = dom FAN_HASS_TO_ELECTRA
   \<and> set (attr_hvac_modes (init c d)) - {HVACMode_OFF} = dom HVAC_MODE_HASS_TO_ELECTRA
   \<and> (\<forall>f \<in> set (attr_fan_modes (init c d)).
        Option.bind (FAN_HASS_TO_ELECTRA f) FAN_ELECTRA_TO_HASS = Some f)
   \<and> (\<forall>v \<in> dom FAN_ELECTRA_TO_HASS.
        Option.bind (FAN_ELECTRA_TO_HASS v) FAN_HASS_TO_ELECTRA = Some v)
   \<and> (\<forall>m \<in> dom HVAC_MODE_HASS_TO_ELECTRA.
        Option.bind (HVAC_MODE_HASS_TO_ELECTRA m) HVAC_MODE_ELECTRA_TO_HASS = Some m)
   \<and> (\<forall>w \<in> dom HVAC_MODE_ELECTRA_TO_HASS.
        Option.bind (HVAC_MODE_ELECTRA_TO_HASS w) HVAC_MODE_HASS_TO_ELECTRA = Some w)"
proof -
  have fans: "set (attr_fan_modes (init c d)) = dom FAN_HASS_TO_ELECTRA"
    unfolding dom_FAN_HASS_TO_ELECTRA init_fan_modes by auto
  have modes:
    "set (attr_hvac_modes (init c d)) - {HVACMode_OFF} = dom HVAC_MODE_HASS_TO_ELECTRA"
    unfolding dom_HVAC_MODE_HASS_TO_ELECTRA init_hvac_modes by auto
  have a: "\<forall>f \<in> set (attr_fan_modes (init c d)).
        Option.bind (FAN_HASS_TO_ELECTRA f) FAN_ELECTRA_TO_HASS = Some f"
    unfolding fans using fan_hass_round_trip by blast
  have b: "\<forall>v \<in> dom FAN_ELECTRA_TO_HASS.
        Option.bind (FAN_ELECTRA_TO_HASS v) FAN_HASS_TO_ELECTRA = Some v"
    using fan_electra_round_trip by blast
  have c: "\<forall>m \<in> dom HVAC_MODE_HASS_TO_ELECTRA.
        Option.bind (HVAC_MODE_HASS_TO_ELECTRA m) HVAC_MODE_ELECTRA_TO_HASS = Some m"
    using hvac_hass_round_trip by blast
  have d: "\<forall>w \<in> dom HVAC_MODE_ELECTRA_TO_HASS.
        Option.bind (HVAC_MODE_ELECTRA_TO_HASS w) HVAC_MODE_HASS_TO_ELECTRA = Some w"
    using hvac_electra_round_trip by blast
  from fans modes a b c d show ?thesis by (intro conjI)
qed

theorem translation_tables_round_trip_witness:
  "FAN_MEDIUM \<in> set (attr_fan_modes (init ex_constants ex_device))
   \<and> Option.bind (FAN_HASS_TO_ELECTRA FAN_MEDIUM) FAN_ELECTRA_TO_HASS = Some FAN_MEDIUM
   \<and> FAN_SPEED_HIGH \<in> dom FAN_ELECTRA_TO_HASS
   \<and> Option.bind (FAN_ELECTRA_TO_HASS FAN_SPEED_HIGH) FAN_HASS_TO_ELECTRA = Some FAN_SPEED_HIGH
   \<and> HVACMode_FAN_ONLY \<in> dom HVAC_MODE_HASS_TO_ELECTRA
   \<and> Option.bind (HVAC_MODE_HASS_TO_ELECTRA HVACMode_FAN_ONLY) HVAC_MODE_ELECTRA_TO_HASS
       = Some HVACMode_FAN_ONLY
   \<and> MODE_DRY \<in> dom HVAC_MODE_ELECTRA_TO_HASS
   \<and> Option.bind (HVAC_MODE_ELECTRA_TO_HASS MODE_DRY) HVAC_MODE_HASS_TO_ELECTRA = Some MODE_DRY"
proof -
  have 1: "FAN_MEDIUM \<in> set (attr_fan_modes (init ex_constants ex_device))"
    by (simp add: init_fan_modes)
  have 2: "FAN_SPEED_HIGH \<in> dom FAN_ELECTRA_TO_HASS" by (simp add: FAN_ELECTRA_TO_HASS_def)
  have 3: "HVACMode_FAN_ONLY \<in> dom HVAC_MODE_HASS_TO_ELECTRA"
    by (simp add: HVAC_MODE_HASS_TO_ELECTRA_def)
  have 4: "MODE_DRY \<in> dom HVAC_MODE_ELECTRA_TO_HASS"
    by (simp add: HVAC_MODE_ELECTRA_TO_HASS_def)
  from translation_tables_round_trip [of ex_constants ex_device] 1 2 3 4
  show ?thesis by blast
qed

subsection \<open>Attribute reconciliation\<close>

lemma update_device_attrs_swing:
  assumes "update_device_attrs e = (e', Returned)"
  shows "attr_swing_mode e' =
           Some (if is_horizontal_swing (electra_ac_device e)
                    \<and> is_vertical_swing (electra_ac_device e) then SWING_BOTH
                 else if is_horizontal_swing (electra_ac_device e) then SWING_HORIZONTAL
                 else if is_vertical_swing (electra_ac_device e) then SWING_VERTICAL
                 else SWING_OFF)"
  using assms
  by (auto simp: update_device_attrs_def Let_def split: option.splits if_splits)

lemma update_device_attrs_returns:
  "snd (update_device_attrs e) = Returned \<longleftrightarrow>
     get_fan_speed (electra_ac_device e) \<in> dom FAN_ELECTRA_TO_HASS
     \<and> (is_on (electra_ac_device e) \<longrightarrow>
          get_mode (electra_ac_device e) \<in> dom HVAC_MODE_ELECTRA_TO_HASS)"
  unfolding dom_HVAC_MODE_ELECTRA_TO_HASS dom_FAN_ELECTRA_TO_HASS
  by (cases "get_mode (electra_ac_device e)"; cases "get_fan_speed (electra_ac_device e)")
    (simp_all add: update_device_attrs_def Let_def FAN_ELECTRA_TO_HASS_def
      HVAC_MODE_ELECTRA_TO_HASS_def HVAC_ACTION_ELECTRA_TO_HASS_def)

lemma ex_update_returns:
  "is_on d \<Longrightarrow> get_mode d = MODE_COOL \<Longrightarrow> get_fan_speed d = FAN_SPEED_LOW \<Longrightarrow>
     snd (update_device_attrs (init c d)) = Returned"
  by (simp add: update_device_attrs_returns init_fields dom_FAN_ELECTRA_TO_HASS
      dom_HVAC_MODE_ELECTRA_TO_HASS)

lemma update_device_attrs_counter:
  "consecutive_failures (fst (update_device_attrs e)) = consecutive_failures e"
  by (simp add: update_device_attrs_def Let_def split: option.splits)

lemma update_device_attrs_device:
  "electra_ac_device (fst (update_device_attrs e)) = electra_ac_device e"
  by (simp add: update_device_attrs_def Let_def split: option.splits)

lemma update_device_attrs_recopies:
  assumes "update_device_attrs e = (e', Returned)"
  shows "e' = e
    \<lparr> attr_fan_mode := FAN_ELECTRA_TO_HASS (get_fan_speed (electra_ac_device e)),
      attr_current_temperature := Some (get_sensor_temperature (electra_ac_device e)),
      attr_target_temperature := Some (get_temperature (electra_ac_device e)),
      attr_hvac_mode :=
        (if \<not> is_on (electra_ac_device e) then Some HVACMode_OFF
         else HVAC_MODE_ELECTRA_TO_HASS (get_mode (electra_ac_device e))),
      attr_hvac_action :=
        (if get_mode (electra_ac_device e) = MODE_AUTO then None
         else if \<not> is_on (electra_ac_device e) then Some HVACAction_OFF
         else HVAC_ACTION_ELECTRA_TO_HASS (get_mode (electra_ac_device e))),
      attr_swing_mode :=
        Some (if is_horizontal_swing (electra_ac_device e)
                 \<and> is_vertical_swing (electra_ac_device e) then SWING_BOTH
              else if is_horizontal_swing (electra_ac_device e) then SWING_HORIZONTAL
              else if is_vertical_swing (electra_ac_device e) then SWING_VERTICAL
              else SWING_OFF),
      attr_preset_mode :=
        Some (if get_shabat_mode (electra_ac_device e) then PRESET_SHABAT else PRESET_NONE) \<rparr>"
  using assms
  by (auto simp: update_device_attrs_def Let_def split: option.splits if_splits)

text \<open>
  C9. When \<^verbatim>\<open>_update_device_attrs\<close> completes, the swing mode it derived is \<^verbatim>\<open>SWING_BOTH\<close>
  if the device reports both axes swinging, \<^verbatim>\<open>SWING_OFF\<close> if it reports neither, and the
  one axis that swings if exactly one does.
\<close>

theorem swing_mode_composition:
  assumes "update_device_attrs e = (e', Returned)"
  shows "(is_horizontal_swing (electra_ac_device e) \<and> is_vertical_swing (electra_ac_device e)
            \<longrightarrow> attr_swing_mode e' = Some SWING_BOTH)
       \<and> (\<not> is_horizontal_swing (electra_ac_device e) \<and> \<not> is_vertical_swing (electra_ac_device e)
            \<longrightarrow> attr_swing_mode e' = Some SWING_OFF)
       \<and> (is_horizontal_swing (electra_ac_device e) \<and> \<not> is_vertical_swing (electra_ac_device e)
            \<longrightarrow> attr_swing_mode e' = Some SWING_HORIZONTAL)
       \<and> (\<not> is_horizontal_swing (electra_ac_device e) \<and> is_vertical_swing (electra_ac_device e)
            \<longrightarrow> attr_swing_mode e' = Some SWING_VERTICAL)"
  using update_device_attrs_swing [OF assms] by simp

theorem swing_mode_composition_witness:
  "snd (update_device_attrs (init ex_constants ex_device)) = Returned
   \<and> is_horizontal_swing ex_device \<and> is_vertical_swing ex_device
   \<and> attr_swing_mode (fst (update_device_attrs (init ex_constants ex_device)))
       = Some SWING_BOTH
   \<and> snd (update_device_attrs (init ex_constants
            (ex_device\<lparr>is_horizontal_swing := False, is_vertical_swing := False\<rparr>))) = Returned
   \<and> attr_swing_mode (fst (update_device_attrs (init ex_constants
            (ex_device\<lparr>is_horizontal_swing := False, is_vertical_swing := False\<rparr>))))
       = Some SWING_OFF"
proof -
  let ?off = "ex_device\<lparr>is_horizontal_swing := False, is_vertical_swing := False\<rparr>"
  have r1: "snd (update_device_attrs (init ex_constants ex_device)) = Returned"
    by (rule ex_update_returns) (simp_all add: ex_device_fields)
  have r2: "snd (update_device_attrs (init ex_constants ?off)) = Returned"
    by (rule ex_update_returns) (simp_all add: ex_device_fields)
  have e1: "update_device_attrs (init ex_constants ex_device)
              = (fst (update_device_attrs (init ex_constants ex_device)), Returned)"
    using r1 by (simp add: prod_eq_iff)
  have e2: "update_device_attrs (init ex_constants ?off)
              = (fst (update_device_attrs (init ex_constants ?off)), Returned)"
    using r2 by (simp add: prod_eq_iff)
  from swing_mode_composition [OF e1] swing_mode_composition [OF e2] r1 r2
  show ?thesis by (simp add: init_fields ex_device_fields)
qed

lemma ex_entity_eq:
  "ex_entity =
     (init ex_constants ex_device)
       \<lparr> skip_update := False,
         attr_fan_mode := Some FAN_LOW,
         attr_current_temperature := Some 27,
         attr_target_temperature := Some 24,
         attr_hvac_mode := Some HVACMode_COOL,
         attr_hvac_action := Some HVACAction_COOLING,
         attr_swing_mode := Some SWING_BOTH,
         attr_preset_mode := Some PRESET_NONE \<rparr>"
  by (simp add: ex_entity_def async_update_def try_body_def update_device_attrs_def init_def
      ex_device_def ex_constants_def is_disconnected_def FAN_ELECTRA_TO_HASS_def
      HVAC_MODE_ELECTRA_TO_HASS_def HVAC_ACTION_ELECTRA_TO_HASS_def Let_def)

lemma ex_entity_fields:
  "electra_ac_device ex_entity = ex_device"
  "last_state_update ex_entity = 0"
  "consecutive_failures ex_entity = 0"
  "\<not> skip_update ex_entity"
  "available ex_entity"
  "attr_target_temperature ex_entity = Some 24"
  "attr_fan_mode ex_entity = Some FAN_LOW"
  by (simp_all add: ex_entity_eq init_def)

subsection \<open>Polling\<close>

lemma try_body_fetch_ok:
  assumes "\<not> skip_update e" and "api_get_last_telemtry api (electra_ac_device e) = Inr d"
  shows "try_body c api e =
     (if is_disconnected d (UNAVAILABLE_THRESH_SEC c) then
        (Inr (e\<lparr>electra_ac_device := d, available := False, attr_available := False\<rparr>, True),
         [Call_get_last_telemtry])
      else
        (Inr (if \<not> available e
              then e\<lparr>electra_ac_device := d, available := True, attr_available := True\<rparr>
              else e\<lparr>electra_ac_device := d\<rparr>, False),
         [Call_get_last_telemtry]))"
  using assms by (cases "available e") (simp_all add: try_body_def)

lemma try_body_fetch_fails:
  assumes "\<not> skip_update e" and "api_get_last_telemtry api (electra_ac_device e) = Inl exp"
  shows "try_body c api e = (Inl exp, [Call_get_last_telemtry])"
  using assms by (simp add: try_body_def)

lemma async_update_past_window:
  assumes "\<not> (last_state_update e \<noteq> 0 \<and> now < last_state_update e + API_DELAY c)"
  shows "async_update c api now e =
        (let e0 = e\<lparr>last_state_update := 0\<rparr> in
         case try_body c api e0 of
           (Inl exp, fx) \<Rightarrow>
             let e1 = e0\<lparr>consecutive_failures := consecutive_failures e0 + 1\<rparr> in
             if consecutive_failures e1 \<ge> CONSECUTIVE_FAILURE_THRESHOLD c then
               (e1, fx, Raised HomeAssistantError)
             else (e1, fx, Returned)
         | (Inr (e1, True), fx) \<Rightarrow> (e1, fx, Returned)
         | (Inr (e1, False), fx) \<Rightarrow>
             (case update_device_attrs (e1\<lparr>consecutive_failures := 0\<rparr>) of
                (e2, r) \<Rightarrow> (e2, fx, r)))"
  using assms unfolding async_update_def by (simp only: if_False)

lemma poll_fetch_fails:
  assumes "\<not> (last_state_update e \<noteq> 0 \<and> now < last_state_update e + API_DELAY c)"
    and "\<not> skip_update e"
    and "api_get_last_telemtry api (electra_ac_device e) = Inl exp"
  shows "async_update c api now e =
           (e\<lparr>last_state_update := 0, consecutive_failures := consecutive_failures e + 1\<rparr>,
            [Call_get_last_telemtry],
            if CONSECUTIVE_FAILURE_THRESHOLD c \<le> consecutive_failures e + 1
            then Raised HomeAssistantError else Returned)"
proof -
  have "try_body c api (e\<lparr>last_state_update := 0\<rparr>) = (Inl exp, [Call_get_last_telemtry])"
    using try_body_fetch_fails [of "e\<lparr>last_state_update := 0\<rparr>" api exp c] assms by simp
  then show ?thesis
    unfolding async_update_past_window [OF assms(1)] by (simp add: Let_def)
qed

lemma poll_device_disconnected:
  assumes "\<not> (last_state_update e \<noteq> 0 \<and> now < last_state_update e + API_DELAY c)"
    and "\<not> skip_update e"
    and "api_get_last_telemtry api (electra_ac_device e) = Inr d"
    and "is_disconnected d (UNAVAILABLE_THRESH_SEC c)"
  shows "async_update c api now e =
           (e\<lparr>electra_ac_device := d, last_state_update := 0,
              available := False, attr_available := False\<rparr>,
            [Call_get_last_telemtry], Returned)"
proof -
  have "try_body c api (e\<lparr>last_state_update := 0\<rparr>) =
     (Inr (e\<lparr>last_state_update := 0, electra_ac_device := d, available := False,
             attr_available := False\<rparr>, True),
      [Call_get_last_telemtry])"
    using try_body_fetch_ok [of "e\<lparr>last_state_update := 0\<rparr>" api d c] assms by simp
  then show ?thesis
    unfolding async_update_past_window [OF assms(1)] by (simp add: Let_def)
qed

lemma poll_device_connected:
  assumes "\<not> (last_state_update e \<noteq> 0 \<and> now < last_state_update e + API_DELAY c)"
    and "\<not> skip_update e"
    and "api_get_last_telemtry api (electra_ac_device e) = Inr d"
    and "\<not> is_disconnected d (UNAVAILABLE_THRESH_SEC c)"
  shows "async_update c api now e =
           (case update_device_attrs
                   (if available e
                    then e\<lparr>last_state_update := 0, electra_ac_device := d,
                           consecutive_failures := 0\<rparr>
                    else e\<lparr>last_state_update := 0, electra_ac_device := d, available := True,
                           attr_available := True, consecutive_failures := 0\<rparr>) of
              (e2, r) \<Rightarrow> (e2, [Call_get_last_telemtry], r))"
proof -
  have "try_body c api (e\<lparr>last_state_update := 0\<rparr>) =
     (Inr (if available e then e\<lparr>last_state_update := 0, electra_ac_device := d\<rparr>
           else e\<lparr>last_state_update := 0, electra_ac_device := d, available := True,
                  attr_available := True\<rparr>, False),
      [Call_get_last_telemtry])"
    using try_body_fetch_ok [of "e\<lparr>last_state_update := 0\<rparr>" api d c] assms
    by (cases "available e") simp_all
  then show ?thesis
    unfolding async_update_past_window [OF assms(1)]
    by (cases "available e") (simp_all add: Let_def)
qed

lemma command_acknowledged:
  assumes "api_set_state api (electra_ac_device e) = Inr resp"
    and "ATTR_STATUS resp = STATUS_SUCCESS c" and "ATTR_RES resp = STATUS_SUCCESS c"
    and "snd (update_device_attrs e) = Returned"
  shows "async_update_electra_ac_state c api now e =
           ((fst (update_device_attrs e))\<lparr>last_state_update := now\<rparr>,
            [Call_set_state, Async_write_ha_state], Returned)"
  using assms
  by (cases "update_device_attrs e") (simp add: async_update_electra_ac_state_def)

lemma ex_command:
  "async_set_temperature ex_constants (ex_api (Inr ex_device) (Inr (ex_response 0 0 None)))
     1000 18 ex_entity =
   (ex_entity\<lparr>electra_ac_device := set_temperature 18 ex_device,
               attr_target_temperature := Some 18, last_state_update := 1000\<rparr>,
    [Call_set_state, Async_write_ha_state], Returned)"
proof -
  let ?e = "ex_entity\<lparr>electra_ac_device := set_temperature 18 ex_device\<rparr>"
  have r: "snd (update_device_attrs ?e) = Returned"
    by (simp add: update_device_attrs_returns set_temperature_def ex_device_fields
        dom_FAN_ELECTRA_TO_HASS dom_HVAC_MODE_ELECTRA_TO_HASS)
  then have "update_device_attrs ?e = (fst (update_device_attrs ?e), Returned)"
    by (simp add: prod_eq_iff)
  from update_device_attrs_recopies [OF this]
  have u: "fst (update_device_attrs ?e) =
             ex_entity\<lparr>electra_ac_device := set_temperature 18 ex_device,
                         attr_target_temperature := Some 18\<rparr>"
    by (simp add: ex_entity_eq init_def set_temperature_def ex_device_def
        FAN_ELECTRA_TO_HASS_def HVAC_MODE_ELECTRA_TO_HASS_def HVAC_ACTION_ELECTRA_TO_HASS_def)
  have "async_update_electra_ac_state ex_constants
          (ex_api (Inr ex_device) (Inr (ex_response 0 0 None))) 1000 ?e =
        ((fst (update_device_attrs ?e))\<lparr>last_state_update := 1000\<rparr>,
         [Call_set_state, Async_write_ha_state], Returned)"
    by (rule command_acknowledged [OF ex_api_set_state _ _ r])
      (simp_all add: ex_response_def ex_constants_fields)
  then show ?thesis
    unfolding u by (simp add: async_set_temperature_def ex_entity_fields)
qed

text \<open>
  C3. A poll that runs while a command's timestamp is recorded (a non-zero
  \<^verbatim>\<open>_last_state_update\<close>; zero is the value the code keeps for no command pending) and
  before \<^verbatim>\<open>API_DELAY\<close> seconds have passed since it is skipped entirely: the client is not
  called and the entity, with every display attribute, its availability, the failure
  counter and the timestamp itself, is left as it was.
\<close>

theorem poll_skipped_in_delay_window:
  assumes "last_state_update e \<noteq> 0"
    and "now < last_state_update e + API_DELAY c"
  shows "async_update c api now e = (e, [], Returned)"
  using assms by (simp add: async_update_def)

text \<open>
  A command at second 1000 is acknowledged; the poll at second 1003, within the delay of
  five seconds, changes nothing, although the client would now report another device.
\<close>

theorem poll_skipped_in_delay_window_witness:
  "last_state_update (fst (async_set_temperature ex_constants
       (ex_api (Inr ex_device) (Inr (ex_response 0 0 None))) 1000 18 ex_entity)) \<noteq> 0
   \<and> 1003 < last_state_update (fst (async_set_temperature ex_constants
       (ex_api (Inr ex_device) (Inr (ex_response 0 0 None))) 1000 18 ex_entity))
       + API_DELAY ex_constants
   \<and> async_update ex_constants (ex_api (Inr ex_device_lost) (Inr (ex_response 0 0 None))) 1003
        (fst (async_set_temperature ex_constants
           (ex_api (Inr ex_device) (Inr (ex_response 0 0 None))) 1000 18 ex_entity))
      = (fst (async_set_temperature ex_constants
           (ex_api (Inr ex_device) (Inr (ex_response 0 0 None))) 1000 18 ex_entity),
         [], Returned)"
proof -
  let ?e = "fst (async_set_temperature ex_constants
                   (ex_api (Inr ex_device) (Inr (ex_response 0 0 None))) 1000 18 ex_entity)"
  have 1: "last_state_update ?e \<noteq> 0" by (simp add: ex_command)
  have 2: "1003 < last_state_update ?e + API_DELAY ex_constants"
    by (simp add: ex_command ex_constants_fields)
  from 1 2 poll_skipped_in_delay_window [OF 1 2] show ?thesis by (intro conjI)
qed

text \<open>
  C10. A poll past the skip window whose fetch succeeds but reports a device out of
  contact for longer than \<^verbatim>\<open>UNAVAILABLE_THRESH_SEC\<close> returns early and without an error.
  It marks the entity unavailable; apart from that it has only taken the refreshed
  device and cleared the command timestamp. The failure counter is not reset and no
  display attribute is refreshed.
\<close>

theorem disconnected_poll_returns_early:
  assumes "\<not> (last_state_update e \<noteq> 0 \<and> now < last_state_update e + API_DELAY c)"
    and "\<not> skip_update e"
    and "api_get_last_telemtry api (electra_ac_device e) = Inr d"
    and "is_disconnected d (UNAVAILABLE_THRESH_SEC c)"
  shows "async_update c api now e =
           (e\<lparr>electra_ac_device := d, last_state_update := 0,
              available := False, attr_available := False\<rparr>,
            [Call_get_last_telemtry], Returned)"
  using assms by (rule poll_device_disconnected)

theorem disconnected_poll_returns_early_witness:
  "\<not> (last_state_update (ex_entity\<lparr>consecutive_failures := 2\<rparr>) \<noteq> 0
       \<and> 2000 < last_state_update (ex_entity\<lparr>consecutive_failures := 2\<rparr>)
                   + API_DELAY ex_constants)
   \<and> \<not> skip_update (ex_entity\<lparr>consecutive_failures := 2\<rparr>)
   \<and> api_get_last_telemtry (ex_api (Inr ex_device_lost) (Inr (ex_response 0 0 None)))
        (electra_ac_device (ex_entity\<lparr>consecutive_failures := 2\<rparr>)) = Inr ex_device_lost
   \<and> is_disconnected ex_device_lost (UNAVAILABLE_THRESH_SEC ex_constants)
   \<and> async_update ex_constants (ex_api (Inr ex_device_lost) (Inr (ex_response 0 0 None))) 2000
        (ex_entity\<lparr>consecutive_failures := 2\<rparr>)
      = (ex_entity\<lparr>consecutive_failures := 2, electra_ac_device := ex_device_lost,
                    last_state_update := 0, available := False, attr_available := False\<rparr>,
         [Call_get_last_telemtry], Returned)"
proof -
  let ?e = "ex_entity\<lparr>consecutive_failures := 2\<rparr>"
  let ?api = "ex_api (Inr ex_device_lost) (Inr (ex_response 0 0 None))"
  have 1: "\<not> (last_state_update ?e \<noteq> 0 \<and> 2000 < last_state_update ?e + API_DELAY ex_constants)"
    by (simp add: ex_entity_fields)
  have 2: "\<not> skip_update ?e" by (simp add: ex_entity_fields)
  have 3: "api_get_last_telemtry ?api (electra_ac_device ?e) = Inr ex_device_lost"
    by (rule ex_api_get_last_telemtry)
  have 4: "is_disconnected ex_device_lost (UNAVAILABLE_THRESH_SEC ex_constants)"
    by (rule ex_device_fields)
  from disconnected_poll_returns_early [OF 1 2 3 4]
  have 5: "async_update ex_constants ?api 2000 ?e
      = (ex_entity\<lparr>consecutive_failures := 2, electra_ac_device := ex_device_lost,
                    last_state_update := 0, available := False, attr_available := False\<rparr>,
         [Call_get_last_telemtry], Returned)"
    by simp
  from 1 2 3 4 5 show ?thesis by (intro conjI)
qed

lemma failing_polls:
  assumes "\<not> skip_update e" and "last_state_update e = 0"
    and "api_get_last_telemtry api (electra_ac_device e) = Inl exp"
  shows "consecutive_failures (fst (poll_cycles c api ticks e))
           = consecutive_failures e + int (length ticks)
       \<and> snd (poll_cycles c api ticks e) =
           map (\<lambda>k. if CONSECUTIVE_FAILURE_THRESHOLD c \<le> consecutive_failures e + int k + 1
                    then Raised HomeAssistantError else Returned)
               [0..<length ticks]"
  using assms
proof (induction ticks arbitrary: e)
  case Nil
  then show ?case by simp
next
  case (Cons now ticks)
  let ?T = "CONSECUTIVE_FAILURE_THRESHOLD c"
  let ?f = "\<lambda>k. if ?T \<le> consecutive_failures e + int k + 1
                then Raised HomeAssistantError else Returned"
  let ?e1 = "e\<lparr>last_state_update := 0, consecutive_failures := consecutive_failures e + 1\<rparr>"
  have step: "async_update c api now e = (?e1, [Call_get_last_telemtry], ?f 0)"
    using poll_fetch_fails [of e now c api exp] Cons.prems by simp
  have ih: "consecutive_failures (fst (poll_cycles c api ticks ?e1))
           = consecutive_failures ?e1 + int (length ticks)
       \<and> snd (poll_cycles c api ticks ?e1) =
           map (\<lambda>k. if ?T \<le> consecutive_failures ?e1 + int k + 1
                    then Raised HomeAssistantError else Returned)
               [0..<length ticks]"
    using Cons.prems by (intro Cons.IH) simp_all
  have shift: "(\<lambda>k. if ?T \<le> consecutive_failures ?e1 + int k + 1
                    then Raised HomeAssistantError else Returned) = (\<lambda>k. ?f (Suc k))"
    by (simp add: fun_eq_iff add.commute add.left_commute)
  obtain e2 rs where pc: "poll_cycles c api ticks ?e1 = (e2, rs)"
    by (cases "poll_cycles c api ticks ?e1")
  have unfold: "poll_cycles c api (now # ticks) e = (e2, ?f 0 # rs)"
    by (simp only: poll_cycles.simps step pc prod.case)
  have rs: "rs = map (\<lambda>k. ?f (Suc k)) [0..<length ticks]"
    using ih unfolding shift pc by simp
  have cnt: "consecutive_failures e2 = consecutive_failures e + int (length (now # ticks))"
    using ih unfolding pc by simp
  have "?f 0 # rs = map ?f [0..<length (now # ticks)]"
    unfolding rs by (simp only: length_Cons map_upt_Suc)
  with cnt show ?case unfolding unfold by (simp only: fst_conv snd_conv)
qed

text \<open>
  C1, as the code has it. The counter is incremented before it is compared, and the
  comparison is \<^verbatim>\<open>>=\<close>: starting from a counter of zero, of any number of consecutive
  failing polls (none skipped, the fetch raising each time) poll number \<open>k + 1\<close> raises
  \<^verbatim>\<open>HomeAssistantError\<close> exactly if \<open>k + 1\<close> has reached \<^verbatim>\<open>CONSECUTIVE_FAILURE_THRESHOLD\<close>.
  So the failure that brings the count to the threshold already raises, as does every
  later one, and the failures before it are swallowed.
\<close>

theorem failure_threshold_raises:
  assumes "\<not> skip_update e" and "last_state_update e = 0"
    and "consecutive_failures e = 0"
    and "api_get_last_telemtry api (electra_ac_device e) = Inl exp"
  shows "snd (poll_cycles c api ticks e) =
           map (\<lambda>k. if CONSECUTIVE_FAILURE_THRESHOLD c \<le> int k + 1
                    then Raised HomeAssistantError else Returned)
               [0..<length ticks]"
  using failing_polls [OF assms(1,2,4), of c ticks] assms(3) by simp

theorem failure_threshold_raises_witness:
  "\<not> skip_update ex_entity \<and> last_state_update ex_entity = 0
   \<and> consecutive_failures ex_entity = 0
   \<and> api_get_last_telemtry (ex_api (Inl (ElectraApiError ''timeout'')) (Inr (ex_response 0 0 None)))
        (electra_ac_device ex_entity) = Inl (ElectraApiError ''timeout'')
   \<and> snd (poll_cycles ex_constants
             (ex_api (Inl (ElectraApiError ''timeout'')) (Inr (ex_response 0 0 None)))
             [1030, 1060, 1090, 1120, 1150] ex_entity)
      = [Returned, Returned, Returned, Raised HomeAssistantError, Raised HomeAssistantError]"
proof -
  let ?api = "ex_api (Inl (ElectraApiError ''timeout'')) (Inr (ex_response 0 0 None))"
  have 1: "\<not> skip_update ex_entity" by (rule ex_entity_fields)
  have 2: "last_state_update ex_entity = 0" by (rule ex_entity_fields)
  have 3: "consecutive_failures ex_entity = 0" by (rule ex_entity_fields)
  have 4: "api_get_last_telemtry ?api (electra_ac_device ex_entity)
             = Inl (ElectraApiError ''timeout'')"
    by (rule ex_api_get_last_telemtry)
  have 5: "snd (poll_cycles ex_constants ?api [1030, 1060, 1090, 1120, 1150] ex_entity)
      = [Returned, Returned, Returned, Raised HomeAssistantError, Raised HomeAssistantError]"
    unfolding failure_threshold_raises [OF 1 2 3 4]
    by (simp add: ex_constants_fields)
  from 1 2 3 4 5 show ?thesis by (intro conjI)
qed

text \<open>
  C1 as stated fails. With a threshold of four, the fourth consecutive failing poll
  raises: it does so when three failures, fewer than the threshold, have occurred before
  it, and with the counter, before and after the poll, at or below the threshold.
\<close>

theorem failure_threshold_counterexample:
  "CONSECUTIVE_FAILURE_THRESHOLD ex_constants = 4
   \<and> consecutive_failures ex_entity = 0
   \<and> snd (poll_cycles ex_constants
             (ex_api (Inl (ElectraApiError ''timeout'')) (Inr (ex_response 0 0 None)))
             [1030, 1060, 1090, 1120] ex_entity)
      = [Returned, Returned, Returned, Raised HomeAssistantError]
   \<and> consecutive_failures (fst (poll_cycles ex_constants
             (ex_api (Inl (ElectraApiError ''timeout'')) (Inr (ex_response 0 0 None)))
             [1030, 1060, 1090, 1120] ex_entity)) = 4"
proof -
  let ?api = "ex_api (Inl (ElectraApiError ''timeout'')) (Inr (ex_response 0 0 None))"
  have 1: "\<not> skip_update ex_entity" by (rule ex_entity_fields)
  have 2: "last_state_update ex_entity = 0" by (rule ex_entity_fields)
  have 4: "api_get_last_telemtry ?api (electra_ac_device ex_entity)
             = Inl (ElectraApiError ''timeout'')"
    by (rule ex_api_get_last_telemtry)
  show ?thesis
    using failing_polls [OF 1 2 4, of ex_constants "[1030, 1060, 1090, 1120]"]
    by (simp add: ex_constants_fields ex_entity_fields)
qed

lemma poll_connected_fields:
  assumes "\<not> (last_state_update e \<noteq> 0 \<and> now < last_state_update e + API_DELAY c)"
    and "\<not> skip_update e"
    and "api_get_last_telemtry api (electra_ac_device e) = Inr d"
    and "\<not> is_disconnected d (UNAVAILABLE_THRESH_SEC c)"
    and "async_update c api now e = (e', fx, r)"
  shows "consecutive_failures e' = 0" and "electra_ac_device e' = d"
    and "fx = [Call_get_last_telemtry]"
    and "r = Returned \<longleftrightarrow>
           get_fan_speed d \<in> dom FAN_ELECTRA_TO_HASS
           \<and> (is_on d \<longrightarrow> get_mode d \<in> dom HVAC_MODE_ELECTRA_TO_HASS)"
    and "r = Returned \<Longrightarrow>
           attr_fan_mode e' = FAN_ELECTRA_TO_HASS (get_fan_speed d)
         \<and> attr_current_temperature e' = Some (get_sensor_temperature d)
         \<and> attr_target_temperature e' = Some (get_temperature d)
         \<and> attr_hvac_mode e' =
             (if \<not> is_on d then Some HVACMode_OFF else HVAC_MODE_ELECTRA_TO_HASS (get_mode d))
         \<and> attr_hvac_action e' =
             (if get_mode d = MODE_AUTO then None
              else if \<not> is_on d then Some HVACAction_OFF
              else HVAC_ACTION_ELECTRA_TO_HASS (get_mode d))
         \<and> attr_swing_mode e' =
             Some (if is_horizontal_swing d \<and> is_vertical_swing d then SWING_BOTH
                   else if is_horizontal_swing d then SWING_HORIZONTAL
                   else if is_vertical_swing d then SWING_VERTICAL
                   else SWING_OFF)
         \<and> attr_preset_mode e' = Some (if get_shabat_mode d then PRESET_SHABAT else PRESET_NONE)"
proof -
  define e0 where "e0 =
     (if available e
      then e\<lparr>last_state_update := 0, electra_ac_device := d, consecutive_failures := 0\<rparr>
      else e\<lparr>last_state_update := 0, electra_ac_device := d, available := True,
             attr_available := True, consecutive_failures := 0\<rparr>)"
  have e0: "electra_ac_device e0 = d" "consecutive_failures e0 = 0"
    by (simp_all add: e0_def)
  have "async_update c api now e =
          (case update_device_attrs e0 of (e2, r) \<Rightarrow> (e2, [Call_get_last_telemtry], r))"
    unfolding e0_def using assms(1-4) by (rule poll_device_connected)
  with assms(5) have u: "update_device_attrs e0 = (e', r)" and fx: "fx = [Call_get_last_telemtry]"
    by (simp_all split: prod.splits)
  show "fx = [Call_get_last_telemtry]" by (rule fx)
  show "consecutive_failures e' = 0"
    using update_device_attrs_counter [of e0] u e0 by simp
  show "electra_ac_device e' = d"
    using update_device_attrs_device [of e0] u e0 by simp
  show "r = Returned \<longleftrightarrow>
           get_fan_speed d \<in> dom FAN_ELECTRA_TO_HASS
           \<and> (is_on d \<longrightarrow> get_mode d \<in> dom HVAC_MODE_ELECTRA_TO_HASS)"
    using update_device_attrs_returns [of e0] u e0 by simp
  assume "r = Returned"
  with u have "update_device_attrs e0 = (e', Returned)" by simp
  from update_device_attrs_recopies [OF this]
  show "attr_fan_mode e' = FAN_ELECTRA_TO_HASS (get_fan_speed d)
         \<and> attr_current_temperature e' = Some (get_sensor_temperature d)
         \<and> attr_target_temperature e' = Some (get_temperature d)
         \<and> attr_hvac_mode e' =
             (if \<not> is_on d then Some HVACMode_OFF else HVAC_MODE_ELECTRA_TO_HASS (get_mode d))
         \<and> attr_hvac_action e' =
             (if get_mode d = MODE_AUTO then None
              else if \<not> is_on d then Some HVACAction_OFF
              else HVAC_ACTION_ELECTRA_TO_HASS (get_mode d))
         \<and> attr_swing_mode e' =
             Some (if is_horizontal_swing d \<and> is_vertical_swing d then SWING_BOTH
                   else if is_horizontal_swing d then SWING_HORIZONTAL
                   else if is_vertical_swing d then SWING_VERTICAL
                   else SWING_OFF)
         \<and> attr_preset_mode e' = Some (if get_shabat_mode d then PRESET_SHABAT else PRESET_NONE)"
    unfolding e0 by simp
qed

text \<open>
  C4, as the code has it. Take a poll past the skip window that does fetch (every poll
  but the entity's first). If the fetch raises, the failure counter grows by exactly one
  and nothing else changes, the cleared command timestamp apart. If the fetch succeeds
  and the refreshed device is not out of contact, the failure counter is reset to zero;
  the poll then completes exactly if the reported fan speed, and the reported mode of a
  device that is on, are keys of their tables, and on completing it has recopied every
  display attribute from the refreshed device through the tables. A fetch that
  succeeds with a device out of contact resets and recopies nothing.
\<close>

theorem poll_counter_and_attributes:
  assumes "\<not> (last_state_update e \<noteq> 0 \<and> now < last_state_update e + API_DELAY c)"
    and "\<not> skip_update e"
    and "async_update c api now e = (e', fx, r)"
  shows "(api_get_last_telemtry api (electra_ac_device e) = Inl exp \<longrightarrow>
            e' = e\<lparr>last_state_update := 0,
                   consecutive_failures := consecutive_failures e + 1\<rparr>)
       \<and> (api_get_last_telemtry api (electra_ac_device e) = Inr d
            \<and> \<not> is_disconnected d (UNAVAILABLE_THRESH_SEC c) \<longrightarrow>
            consecutive_failures e' = 0
          \<and> (r = Returned \<longleftrightarrow>
               get_fan_speed d \<in> dom FAN_ELECTRA_TO_HASS
               \<and> (is_on d \<longrightarrow> get_mode d \<in> dom HVAC_MODE_ELECTRA_TO_HASS))
          \<and> (r = Returned \<longrightarrow>
               attr_fan_mode e' = FAN_ELECTRA_TO_HASS (get_fan_speed d)
             \<and> attr_current_temperature e' = Some (get_sensor_temperature d)
             \<and> attr_target_temperature e' = Some (get_temperature d)
             \<and> attr_hvac_mode e' =
                 (if \<not> is_on d then Some HVACMode_OFF
                  else HVAC_MODE_ELECTRA_TO_HASS (get_mode d))
             \<and> attr_hvac_action e' =
                 (if get_mode d = MODE_AUTO then None
                  else if \<not> is_on d then Some HVACAction_OFF
                  else HVAC_ACTION_ELECTRA_TO_HASS (get_mode d))
             \<and> attr_swing_mode e' =
                 Some (if is_horizontal_swing d \<and> is_vertical_swing d then SWING_BOTH
                       else if is_horizontal_swing d then SWING_HORIZONTAL
                       else if is_vertical_swing d then SWING_VERTICAL
                       else SWING_OFF)
             \<and> attr_preset_mode e' =
                 Some (if get_shabat_mode d then PRESET_SHABAT else PRESET_NONE)))"
proof -
  have fails: "e' = e\<lparr>last_state_update := 0,
                        consecutive_failures := consecutive_failures e + 1\<rparr>"
    if "api_get_last_telemtry api (electra_ac_device e) = Inl exp"
    using poll_fetch_fails [OF assms(1,2) that] assms(3) by simp
  have succeeds: "consecutive_failures e' = 0
          \<and> (r = Returned \<longleftrightarrow>
               get_fan_speed d \<in> dom FAN_ELECTRA_TO_HASS
               \<and> (is_on d \<longrightarrow> get_mode d \<in> dom HVAC_MODE_ELECTRA_TO_HASS))
          \<and> (r = Returned \<longrightarrow>
               attr_fan_mode e' = FAN_ELECTRA_TO_HASS (get_fan_speed d)
             \<and> attr_current_temperature e' = Some (get_sensor_temperature d)
             \<and> attr_target_temperature e' = Some (get_temperature d)
             \<and> attr_hvac_mode e' =
                 (if \<not> is_on d then Some HVACMode_OFF
                  else HVAC_MODE_ELECTRA_TO_HASS (get_mode d))
             \<and> attr_hvac_action e' =
                 (if get_mode d = MODE_AUTO then None
                  else if \<not> is_on d then Some HVACAction_OFF
                  else HVAC_ACTION_ELECTRA_TO_HASS (get_mode d))
             \<and> attr_swing_mode e' =
                 Some (if is_horizontal_swing d \<and> is_vertical_swing d then SWING_BOTH
                       else if is_horizontal_swing d then SWING_HORIZONTAL
                       else if is_vertical_swing d then SWING_VERTICAL
                       else SWING_OFF)
             \<and> attr_preset_mode e' =
                 Some (if get_shabat_mode d then PRESET_SHABAT else PRESET_NONE))"
    if a: "api_get_last_telemtry api (electra_ac_device e) = Inr d
            \<and> \<not> is_disconnected d (UNAVAILABLE_THRESH_SEC c)"
  proof -
    note f = poll_connected_fields [OF assms(1,2) conjunct1 [OF a] conjunct2 [OF a] assms(3)]
    from f(1) f(4) f(5) show ?thesis by blast
  qed
  from fails succeeds show ?thesis by blast
qed

theorem poll_counter_and_attributes_witness:
  "\<not> (last_state_update ex_entity \<noteq> 0 \<and> 2000 < last_state_update ex_entity + API_DELAY ex_constants)
   \<and> \<not> skip_update ex_entity
   \<and> api_get_last_telemtry (ex_api (Inl (ElectraApiError ''timeout'')) (Inr (ex_response 0 0 None)))
        (electra_ac_device ex_entity) = Inl (ElectraApiError ''timeout'')
   \<and> fst (async_update ex_constants
             (ex_api (Inl (ElectraApiError ''timeout'')) (Inr (ex_response 0 0 None))) 2000 ex_entity)
      = ex_entity\<lparr>last_state_update := 0, consecutive_failures := 1\<rparr>
   \<and> api_get_last_telemtry
        (ex_api (Inr (ex_device\<lparr>get_temperature := 18\<rparr>)) (Inr (ex_response 0 0 None)))
        (electra_ac_device (ex_entity\<lparr>consecutive_failures := 2\<rparr>))
      = Inr (ex_device\<lparr>get_temperature := 18\<rparr>)
   \<and> \<not> is_disconnected (ex_device\<lparr>get_temperature := 18\<rparr>) (UNAVAILABLE_THRESH_SEC ex_constants)
   \<and> consecutive_failures (fst (async_update ex_constants
        (ex_api (Inr (ex_device\<lparr>get_temperature := 18\<rparr>)) (Inr (ex_response 0 0 None))) 2000
        (ex_entity\<lparr>consecutive_failures := 2\<rparr>))) = 0
   \<and> snd (snd (async_update ex_constants
        (ex_api (Inr (ex_device\<lparr>get_temperature := 18\<rparr>)) (Inr (ex_response 0 0 None))) 2000
        (ex_entity\<lparr>consecutive_failures := 2\<rparr>))) = Returned
   \<and> attr_target_temperature (fst (async_update ex_constants
        (ex_api (Inr (ex_device\<lparr>get_temperature := 18\<rparr>)) (Inr (ex_response 0 0 None))) 2000
        (ex_entity\<lparr>consecutive_failures := 2\<rparr>))) = Some 18"
proof -
  let ?bad = "ex_api (Inl (ElectraApiError ''timeout'')) (Inr (ex_response 0 0 None))"
  let ?d = "ex_device\<lparr>get_temperature := 18\<rparr>"
  let ?good = "ex_api (Inr ?d) (Inr (ex_response 0 0 None))"
  let ?e = "ex_entity\<lparr>consecutive_failures := 2\<rparr>"
  let ?p = "async_update ex_constants ?bad 2000 ex_entity"
  let ?q = "async_update ex_constants ?good 2000 ?e"
  have w1: "\<not> (last_state_update ex_entity \<noteq> 0
               \<and> 2000 < last_state_update ex_entity + API_DELAY ex_constants)"
    by (simp add: ex_entity_fields)
  have s1: "\<not> skip_update ex_entity" by (rule ex_entity_fields)
  have f1: "api_get_last_telemtry ?bad (electra_ac_device ex_entity)
              = Inl (ElectraApiError ''timeout'')"
    by (rule ex_api_get_last_telemtry)
  have p: "?p = (fst ?p, fst (snd ?p), snd (snd ?p))" by simp
  from poll_counter_and_attributes [OF w1 s1 p] f1
  have r1: "fst ?p = ex_entity\<lparr>last_state_update := 0, consecutive_failures := 1\<rparr>"
    by (simp add: ex_entity_fields)
  have w2: "\<not> (last_state_update ?e \<noteq> 0 \<and> 2000 < last_state_update ?e + API_DELAY ex_constants)"
    by (simp add: ex_entity_fields)
  have s2: "\<not> skip_update ?e" by (simp add: ex_entity_fields)
  have f2: "api_get_last_telemtry ?good (electra_ac_device ?e) = Inr ?d"
    by (rule ex_api_get_last_telemtry)
  have c2: "\<not> is_disconnected ?d (UNAVAILABLE_THRESH_SEC ex_constants)"
    by (simp add: is_disconnected_def ex_device_def ex_constants_fields)
  have keys: "get_fan_speed ?d \<in> dom FAN_ELECTRA_TO_HASS
              \<and> (is_on ?d \<longrightarrow> get_mode ?d \<in> dom HVAC_MODE_ELECTRA_TO_HASS)"
    by (simp add: ex_device_fields dom_FAN_ELECTRA_TO_HASS dom_HVAC_MODE_ELECTRA_TO_HASS)
  have q: "?q = (fst ?q, fst (snd ?q), snd (snd ?q))" by simp
  from poll_counter_and_attributes [OF w2 s2 q, of _ ?d] f2 c2 keys
  have r2: "consecutive_failures (fst ?q) = 0 \<and> snd (snd ?q) = Returned
            \<and> attr_target_temperature (fst ?q) = Some 18"
    by simp
  from w1 s1 f1 r1 f2 c2 r2 show ?thesis by (intro conjI) simp_all
qed

text \<open>
  C4 as stated fails where the fetch succeeds with a device out of contact: the failure
  counter stays at two and the target temperature shown stays at 24 although the device
  now reports 18.
\<close>

theorem poll_counter_and_attributes_counterexample:
  "\<not> (last_state_update (ex_entity\<lparr>consecutive_failures := 2\<rparr>) \<noteq> 0
       \<and> 2000 < last_state_update (ex_entity\<lparr>consecutive_failures := 2\<rparr>)
                   + API_DELAY ex_constants)
   \<and> api_get_last_telemtry
        (ex_api (Inr (ex_device_lost\<lparr>get_temperature := 18\<rparr>)) (Inr (ex_response 0 0 None)))
        (electra_ac_device (ex_entity\<lparr>consecutive_failures := 2\<rparr>))
      = Inr (ex_device_lost\<lparr>get_temperature := 18\<rparr>)
   \<and> consecutive_failures (fst (async_update ex_constants
        (ex_api (Inr (ex_device_lost\<lparr>get_temperature := 18\<rparr>)) (Inr (ex_response 0 0 None)))
        2000 (ex_entity\<lparr>consecutive_failures := 2\<rparr>))) = 2
   \<and> attr_target_temperature (fst (async_update ex_constants
        (ex_api (Inr (ex_device_lost\<lparr>get_temperature := 18\<rparr>)) (Inr (ex_response 0 0 None)))
        2000 (ex_entity\<lparr>consecutive_failures := 2\<rparr>))) = Some 24
   \<and> snd (snd (async_update ex_constants
        (ex_api (Inr (ex_device_lost\<lparr>get_temperature := 18\<rparr>)) (Inr (ex_response 0 0 None)))
        2000 (ex_entity\<lparr>consecutive_failures := 2\<rparr>))) = Returned"
proof -
  let ?d = "ex_device_lost\<lparr>get_temperature := 18\<rparr>"
  let ?api = "ex_api (Inr ?d) (Inr (ex_response 0 0 None))"
  let ?e = "ex_entity\<lparr>consecutive_failures := 2\<rparr>"
  have w: "\<not> (last_state_update ?e \<noteq> 0 \<and> 2000 < last_state_update ?e + API_DELAY ex_constants)"
    by (simp add: ex_entity_fields)
  have s: "\<not> skip_update ?e" by (simp add: ex_entity_fields)
  have f: "api_get_last_telemtry ?api (electra_ac_device ?e) = Inr ?d"
    by (rule ex_api_get_last_telemtry)
  have l: "is_disconnected ?d (UNAVAILABLE_THRESH_SEC ex_constants)"
    by (simp add: is_disconnected_def ex_device_lost_def ex_constants_fields)
  from poll_device_disconnected [OF w s f l] w f show ?thesis
    by (simp add: ex_entity_fields)
qed

subsection \<open>Command dispatch\<close>

lemma sublist_behind_prefix: "sublist m ys \<Longrightarrow> sublist m (xs @ ys)"
  by (auto simp: sublist_def) (metis append.assoc)

lemma marker_in_err_message: "sublist m (str exp) \<Longrightarrow> sublist m (err_message exp)"
  unfolding err_message_def by (rule sublist_behind_prefix)

lemma handler_client_error:
  assumes "api_set_state api (electra_ac_device e) = Inl exp"
    and "sublist ''client error'' (err_message exp)"
  shows "async_update_electra_ac_state c api now e
           = (e, [Call_set_state], Raised HomeAssistantError)"
  using assms by (simp add: async_update_electra_ac_state_def)

lemma get_devices_client_error:
  assumes "api_get_devices api = Inl exp"
    and "sublist ''client error'' (err_message exp)"
  shows "get_devices c api = Inl ConfigEntryNotReady"
  using assms by (simp add: get_devices_def)

text \<open>
  C2, as the code has it. Both \<^verbatim>\<open>except\<close> clauses look for \<^verbatim>\<open>"client error"\<close> first and
  raise on finding it. An error of the client whose text contains the lockout marker
  ends in \<^verbatim>\<open>ConfigEntryAuthFailed\<close>, from the command handler and from \<^verbatim>\<open>get_devices\<close>,
  provided the message built from it does not contain \<^verbatim>\<open>"client error"\<close>.
\<close>

theorem lockout_marker_requires_reauth:
  assumes "sublist (INTRUDER_LOCKOUT c) (str exp)"
    and "\<not> sublist ''client error'' (err_message exp)"
  shows "(api_set_state api (electra_ac_device e) = Inl exp \<longrightarrow>
            async_update_electra_ac_state c api now e =
              (e, [Call_set_state], Raised ConfigEntryAuthFailed))
       \<and> (api_get_devices api = Inl exp \<longrightarrow> get_devices c api = Inl ConfigEntryAuthFailed)"
  using assms(2) marker_in_err_message [OF assms(1)]
  by (simp add: async_update_electra_ac_state_def get_devices_def)

theorem lockout_marker_requires_reauth_witness:
  "sublist (INTRUDER_LOCKOUT ex_constants) (str (ElectraApiError ''Intruder lockout until 10:00''))
   \<and> \<not> sublist ''client error'' (err_message (ElectraApiError ''Intruder lockout until 10:00''))
   \<and> async_update_electra_ac_state ex_constants
        (ex_api (Inr ex_device) (Inl (ElectraApiError ''Intruder lockout until 10:00''))) 1000
        ex_entity
      = (ex_entity, [Call_set_state], Raised ConfigEntryAuthFailed)
   \<and> get_devices ex_constants
        ((ex_api (Inr ex_device) (Inr (ex_response 0 0 None)))
           \<lparr>api_get_devices := Inl (ElectraApiError ''Intruder lockout until 10:00'')\<rparr>)
      = Inl ConfigEntryAuthFailed"
proof -
  let ?exp = "ElectraApiError ''Intruder lockout until 10:00''"
  let ?api = "(ex_api (Inr ex_device) (Inr (ex_response 0 0 None)))\<lparr>api_get_devices := Inl ?exp\<rparr>"
  have a: "sublist (INTRUDER_LOCKOUT ex_constants) (str ?exp)"
    by code_simp
  have b: "\<not> sublist ''client error'' (err_message ?exp)" by code_simp
  note th = lockout_marker_requires_reauth [OF a b]
  have 3: "async_update_electra_ac_state ex_constants (ex_api (Inr ex_device) (Inl ?exp)) 1000
        ex_entity = (ex_entity, [Call_set_state], Raised ConfigEntryAuthFailed)"
    by (rule th [THEN conjunct1, THEN mp]) (rule ex_api_set_state)
  have 4: "get_devices ex_constants ?api = Inl ConfigEntryAuthFailed"
    by (rule th [THEN conjunct2, THEN mp]) simp
  from a b 3 4 show ?thesis by (intro conjI)
qed

text \<open>
  C2 as stated fails for a message that carries both markers: the command handler
  raises the generic \<^verbatim>\<open>HomeAssistantError\<close> and \<^verbatim>\<open>get_devices\<close> raises
  \<^verbatim>\<open>ConfigEntryNotReady\<close>, neither asking for reauthentication.
\<close>

theorem lockout_marker_counterexample:
  "sublist (INTRUDER_LOCKOUT ex_constants)
     (str (ElectraApiError ''client error, Intruder lockout''))
   \<and> async_update_electra_ac_state ex_constants
        (ex_api (Inr ex_device) (Inl (ElectraApiError ''client error, Intruder lockout''))) 1000
        ex_entity
      = (ex_entity, [Call_set_state], Raised HomeAssistantError)
   \<and> get_devices ex_constants
        ((ex_api (Inr ex_device) (Inr (ex_response 0 0 None)))
           \<lparr>api_get_devices := Inl (ElectraApiError ''client error, Intruder lockout'')\<rparr>)
      = Inl ConfigEntryNotReady"
proof (intro conjI)
  let ?exp = "ElectraApiError ''client error, Intruder lockout''"
  show "sublist (INTRUDER_LOCKOUT ex_constants) (str ?exp)" by code_simp
  have b: "sublist ''client error'' (err_message ?exp)"
    by code_simp
  show "async_update_electra_ac_state ex_constants (ex_api (Inr ex_device) (Inl ?exp)) 1000
        ex_entity = (ex_entity, [Call_set_state], Raised HomeAssistantError)"
    by (rule handler_client_error [OF ex_api_set_state b])
  show "get_devices ex_constants ((ex_api (Inr ex_device) (Inr (ex_response 0 0 None)))
           \<lparr>api_get_devices := Inl ?exp\<rparr>) = Inl ConfigEntryNotReady"
    by (rule get_devices_client_error [OF _ b]) simp
qed

text \<open>
  C7. When \<^verbatim>\<open>set_state\<close> returns an acknowledgment that is not a full success (its status
  or its inner result differs from \<^verbatim>\<open>STATUS_SUCCESS\<close>), the command handler asks the host
  to write the state and then raises \<^verbatim>\<open>HomeAssistantError\<close>. The entity is left as the
  setter handed it over: the device object carries the change, the display attributes
  are not derived again and no timestamp is recorded.
\<close>

theorem unsuccessful_acknowledgment_raises:
  assumes "api_set_state api (electra_ac_device e) = Inr resp"
    and "\<not> (ATTR_STATUS resp = STATUS_SUCCESS c \<and> ATTR_RES resp = STATUS_SUCCESS c)"
  shows "async_update_electra_ac_state c api now e =
           (e, [Call_set_state, Async_write_ha_state], Raised HomeAssistantError)"
  using assms by (simp add: async_update_electra_ac_state_def)

theorem unsuccessful_acknowledgment_raises_witness:
  "api_set_state (ex_api (Inr ex_device) (Inr (ex_response 0 1 None)))
     (electra_ac_device (ex_entity\<lparr>electra_ac_device := set_temperature 18 ex_device\<rparr>))
     = Inr (ex_response 0 1 None)
   \<and> \<not> (ATTR_STATUS (ex_response 0 1 None) = STATUS_SUCCESS ex_constants
         \<and> ATTR_RES (ex_response 0 1 None) = STATUS_SUCCESS ex_constants)
   \<and> async_set_temperature ex_constants (ex_api (Inr ex_device) (Inr (ex_response 0 1 None)))
        1000 18 ex_entity
      = (ex_entity\<lparr>electra_ac_device := set_temperature 18 ex_device\<rparr>,
         [Call_set_state, Async_write_ha_state], Raised HomeAssistantError)
   \<and> attr_target_temperature (ex_entity\<lparr>electra_ac_device := set_temperature 18 ex_device\<rparr>)
       = Some 24
   \<and> last_state_update (ex_entity\<lparr>electra_ac_device := set_temperature 18 ex_device\<rparr>) = 0"
proof -
  let ?api = "ex_api (Inr ex_device) (Inr (ex_response 0 1 None))"
  let ?e = "ex_entity\<lparr>electra_ac_device := set_temperature 18 ex_device\<rparr>"
  have 1: "api_set_state ?api (electra_ac_device ?e) = Inr (ex_response 0 1 None)"
    by (rule ex_api_set_state)
  have 2: "\<not> (ATTR_STATUS (ex_response 0 1 None) = STATUS_SUCCESS ex_constants
         \<and> ATTR_RES (ex_response 0 1 None) = STATUS_SUCCESS ex_constants)"
    by (simp add: ex_response_def ex_constants_fields)
  from unsuccessful_acknowledgment_raises [OF 1 2, of 1000]
  have 3: "async_set_temperature ex_constants ?api 1000 18 ex_entity
      = (?e, [Call_set_state, Async_write_ha_state], Raised HomeAssistantError)"
    by (simp add: async_set_temperature_def ex_entity_fields)
  have 4: "attr_target_temperature ?e = Some 24" by (simp add: ex_entity_fields)
  have 5: "last_state_update ?e = 0" by (simp add: ex_entity_fields)
  from 1 2 3 4 5 show ?thesis by (intro conjI)
qed

subsection \<open>The setup wizard\<close>

lemma phone_step_advances:
  assumes "map_of user_input CONF_PHONE_NUMBER = Some v"
    and "unique_id flow = None \<longrightarrow> host_check v = None"
    and "api_generate_new_token api (Some v) (Some new_imei) = Inr resp"
    and "\<not> (ATTR_STATUS resp = STATUS_SUCCESS c \<and> ATTR_RES resp \<noteq> STATUS_SUCCESS c)"
  shows "validate_phone_number c api host_check new_imei user_input flow =
           (flow\<lparr>phone_number := Some v, imei := Some new_imei,
                  unique_id := (if unique_id flow = None then Some v else unique_id flow)\<rparr>,
            Inr (Show_form CONF_OTP (CONF_OTP, None) [] None))"
  using assms
  by (cases "unique_id flow"; cases "ATTR_STATUS resp = STATUS_SUCCESS c")
    (simp_all add: validate_phone_number_def async_step_one_time_password_def
      show_otp_form_def Let_def)

lemma phone_step_rejects:
  assumes "map_of user_input CONF_PHONE_NUMBER = Some v"
    and "unique_id flow = None \<longrightarrow> host_check v = None"
    and "api_generate_new_token api (Some v) (Some new_imei) = Inr resp"
    and "ATTR_STATUS resp = STATUS_SUCCESS c" and "ATTR_RES resp \<noteq> STATUS_SUCCESS c"
  shows "snd (validate_phone_number c api host_check new_imei user_input flow) =
           Inr (Show_form USER (CONF_PHONE_NUMBER, Some v)
                  [(CONF_PHONE_NUMBER, ''invalid_phone_number'')]
                  (description_placeholders flow))"
  using assms
  by (cases "unique_id flow")
    (simp_all add: validate_phone_number_def show_setup_form_def dict_get_def Let_def)

lemma otp_step_rejects:
  assumes "map_of user_input CONF_OTP = Some v"
    and "api_validate_one_time_password api (Some v) (imei flow) (phone_number flow) = Inr resp"
    and "ATTR_RES resp \<noteq> STATUS_SUCCESS c"
  shows "snd (validate_one_time_password c api user_input flow) =
           Inr (Show_form CONF_OTP (CONF_OTP, Some v) [(CONF_OTP, ''invalid_auth'')]
                  (description_placeholders flow))"
  using assms
  by (simp add: validate_one_time_password_def show_setup_form_def dict_get_def Let_def)

text \<open>
  C6, as the code has it. In OTP validation a reply whose inner result is not
  \<^verbatim>\<open>STATUS_SUCCESS\<close> shows the OTP form again with \<^verbatim>\<open>invalid_auth\<close> on the OTP field. In
  phone-number validation (reached once the host has not ended the flow for an id
  already known) the inner result is looked at only under an outer status of
  \<^verbatim>\<open>STATUS_SUCCESS\<close>: then a reply whose inner result is not \<^verbatim>\<open>STATUS_SUCCESS\<close> shows the
  phone form again with \<^verbatim>\<open>invalid_phone_number\<close> on the phone field. Either form comes
  back with what the user entered as its default.
\<close>

theorem negative_acknowledgment_redisplays_form:
  "(map_of phone_input CONF_PHONE_NUMBER = Some p
      \<and> (unique_id flow = None \<longrightarrow> host_check p = None)
      \<and> api_generate_new_token api (Some p) (Some new_imei) = Inr resp
      \<and> ATTR_STATUS resp = STATUS_SUCCESS c \<and> ATTR_RES resp \<noteq> STATUS_SUCCESS c
    \<longrightarrow> snd (validate_phone_number c api host_check new_imei phone_input flow) =
          Inr (Show_form USER (CONF_PHONE_NUMBER, Some p)
                 [(CONF_PHONE_NUMBER, ''invalid_phone_number'')]
                 (description_placeholders flow)))
   \<and> (map_of otp_input CONF_OTP = Some v
      \<and> api_validate_one_time_password api (Some v) (imei flow) (phone_number flow) = Inr resp
      \<and> ATTR_RES resp \<noteq> STATUS_SUCCESS c
    \<longrightarrow> snd (validate_one_time_password c api otp_input flow) =
          Inr (Show_form CONF_OTP (CONF_OTP, Some v) [(CONF_OTP, ''invalid_auth'')]
                 (description_placeholders flow)))"
proof (intro conjI impI)
  assume "map_of phone_input CONF_PHONE_NUMBER = Some p
      \<and> (unique_id flow = None \<longrightarrow> host_check p = None)
      \<and> api_generate_new_token api (Some p) (Some new_imei) = Inr resp
      \<and> ATTR_STATUS resp = STATUS_SUCCESS c \<and> ATTR_RES resp \<noteq> STATUS_SUCCESS c"
  then show "snd (validate_phone_number c api host_check new_imei phone_input flow) =
          Inr (Show_form USER (CONF_PHONE_NUMBER, Some p)
                 [(CONF_PHONE_NUMBER, ''invalid_phone_number'')]
                 (description_placeholders flow))"
    by (elim conjE) (rule phone_step_rejects)
next
  assume "map_of otp_input CONF_OTP = Some v
      \<and> api_validate_one_time_password api (Some v) (imei flow) (phone_number flow) = Inr resp
      \<and> ATTR_RES resp \<noteq> STATUS_SUCCESS c"
  then show "snd (validate_one_time_password c api otp_input flow) =
          Inr (Show_form CONF_OTP (CONF_OTP, Some v) [(CONF_OTP, ''invalid_auth'')]
                 (description_placeholders flow))"
    by (elim conjE) (rule otp_step_rejects)
qed

theorem negative_acknowledgment_redisplays_form_witness:
  "map_of [(CONF_PHONE_NUMBER, ''0501234567'')] CONF_PHONE_NUMBER = Some ''0501234567''
   \<and> unique_id config_flow_init = None
   \<and> (\<lambda>u. None) ''0501234567'' = (None :: string option)
   \<and> api_generate_new_token (ex_api (Inr ex_device) (Inr (ex_response 0 100 None)))
        (Some ''0501234567'') (Some ''2b950000012345678'') = Inr (ex_response 0 100 None)
   \<and> ATTR_STATUS (ex_response 0 100 None) = STATUS_SUCCESS ex_constants
   \<and> ATTR_RES (ex_response 0 100 None) \<noteq> STATUS_SUCCESS ex_constants
   \<and> snd (validate_phone_number ex_constants (ex_api (Inr ex_device) (Inr (ex_response 0 100 None)))
             (\<lambda>u. None) ''2b950000012345678'' [(CONF_PHONE_NUMBER, ''0501234567'')]
             config_flow_init)
      = Inr (Show_form USER (CONF_PHONE_NUMBER, Some ''0501234567'')
               [(CONF_PHONE_NUMBER, ''invalid_phone_number'')] None)
   \<and> map_of [(CONF_OTP, ''1234'')] CONF_OTP = Some ''1234''
   \<and> api_validate_one_time_password (ex_api (Inr ex_device) (Inr (ex_response 0 100 None)))
        (Some ''1234'') (imei config_flow_init) (phone_number config_flow_init)
      = Inr (ex_response 0 100 None)
   \<and> snd (validate_one_time_password ex_constants
             (ex_api (Inr ex_device) (Inr (ex_response 0 100 None))) [(CONF_OTP, ''1234'')]
             config_flow_init)
      = Inr (Show_form CONF_OTP (CONF_OTP, Some ''1234'') [(CONF_OTP, ''invalid_auth'')] None)"
proof -
  let ?resp = "ex_response 0 100 None"
  let ?api = "ex_api (Inr ex_device) (Inr ?resp)"
  have 1: "map_of [(CONF_PHONE_NUMBER, ''0501234567'')] CONF_PHONE_NUMBER = Some ''0501234567''"
    by simp
  have 2: "unique_id config_flow_init = None
             \<longrightarrow> (\<lambda>u. None) ''0501234567'' = (None :: string option)"
    by simp
  have 3: "api_generate_new_token ?api (Some ''0501234567'') (Some ''2b950000012345678'')
             = Inr ?resp"
    by (rule ex_api_generate_new_token)
  have 4: "ATTR_STATUS ?resp = STATUS_SUCCESS ex_constants"
    by (simp add: ex_response_def ex_constants_fields)
  have 5: "ATTR_RES ?resp \<noteq> STATUS_SUCCESS ex_constants"
    by (simp add: ex_response_def ex_constants_fields)
  have 6: "map_of [(CONF_OTP, ''1234'')] CONF_OTP = Some ''1234''" by simp
  have 7: "api_validate_one_time_password ?api (Some ''1234'') (imei config_flow_init)
             (phone_number config_flow_init) = Inr ?resp"
    by (rule ex_api_validate_one_time_password)
  have d: "description_placeholders config_flow_init = None"
    by (simp add: config_flow_init_def)
  have u: "unique_id config_flow_init = None" by (simp add: config_flow_init_def)
  have h: "(\<lambda>u. None) ''0501234567'' = (None :: string option)" by simp
  note th = negative_acknowledgment_redisplays_form
      [of "[(CONF_PHONE_NUMBER, ''0501234567'')]" "''0501234567''" config_flow_init
          "\<lambda>u. None" ?api "''2b950000012345678''" ?resp ex_constants
          "[(CONF_OTP, ''1234'')]" "''1234''"]
  have 8: "snd (validate_phone_number ex_constants ?api (\<lambda>u. None) ''2b950000012345678''
             [(CONF_PHONE_NUMBER, ''0501234567'')] config_flow_init)
      = Inr (Show_form USER (CONF_PHONE_NUMBER, Some ''0501234567'')
               [(CONF_PHONE_NUMBER, ''invalid_phone_number'')] None)"
    using th [THEN conjunct1, THEN mp, OF conjI [OF 1 conjI [OF 2 conjI [OF 3 conjI [OF 4 5]]]]]
    unfolding d .
  have 9: "snd (validate_one_time_password ex_constants ?api [(CONF_OTP, ''1234'')]
             config_flow_init)
      = Inr (Show_form CONF_OTP (CONF_OTP, Some ''1234'') [(CONF_OTP, ''invalid_auth'')] None)"
    using th [THEN conjunct2, THEN mp, OF conjI [OF 6 conjI [OF 7 5]]]
    unfolding d .
  from 1 u h 3 4 5 8 6 7 9 show ?thesis by (intro conjI)
qed

text \<open>
  C6 as stated fails in phone-number validation. A reply whose outer status and inner
  result both differ from \<^verbatim>\<open>STATUS_SUCCESS\<close> is not looked into: the flow goes on to the
  OTP step and shows the empty OTP form.
\<close>

theorem negative_acknowledgment_counterexample:
  "ATTR_RES (ex_response 1 100 None) \<noteq> STATUS_SUCCESS ex_constants
   \<and> api_generate_new_token (ex_api (Inr ex_device) (Inr (ex_response 1 100 None)))
        (Some ''0501234567'') (Some ''2b950000012345678'') = Inr (ex_response 1 100 None)
   \<and> snd (validate_phone_number ex_constants (ex_api (Inr ex_device) (Inr (ex_response 1 100 None)))
             (\<lambda>u. None) ''2b950000012345678'' [(CONF_PHONE_NUMBER, ''0501234567'')]
             config_flow_init)
      = Inr (Show_form CONF_OTP (CONF_OTP, None) [] None)"
proof -
  let ?resp = "ex_response 1 100 None"
  let ?api = "ex_api (Inr ex_device) (Inr ?resp)"
  have 1: "map_of [(CONF_PHONE_NUMBER, ''0501234567'')] CONF_PHONE_NUMBER = Some ''0501234567''"
    by simp
  have 2: "unique_id config_flow_init = None
             \<longrightarrow> (\<lambda>u. None) ''0501234567'' = (None :: string option)"
    by simp
  have 3: "api_generate_new_token ?api (Some ''0501234567'') (Some ''2b950000012345678'')
             = Inr ?resp"
    by (rule ex_api_generate_new_token)
  have 4: "\<not> (ATTR_STATUS ?resp = STATUS_SUCCESS ex_constants
              \<and> ATTR_RES ?resp \<noteq> STATUS_SUCCESS ex_constants)"
    by (simp add: ex_response_def ex_constants_fields)
  have 5: "ATTR_RES ?resp \<noteq> STATUS_SUCCESS ex_constants"
    by (simp add: ex_response_def ex_constants_fields)
  from phone_step_advances [OF 1 2 3 4] 3 5 show ?thesis by simp
qed

text \<open>
  C8. When the client answers the OTP the user entered, sent with the stored device
  identifier and phone number, with a success result that carries a token, the step keeps
  the token and creates the entry: its title is the phone number and its data are that
  token, the device identifier and the phone number, and nothing else.
\<close>

theorem otp_success_creates_entry:
  assumes "map_of user_input CONF_OTP = Some v"
    and "api_validate_one_time_password api (Some v) (imei flow) (phone_number flow) = Inr resp"
    and "ATTR_RES resp = STATUS_SUCCESS c"
    and "ATTR_TOKEN resp = Some t"
  shows "validate_one_time_password c api user_input flow =
           (flow\<lparr>otp := Some v, token := Some t\<rparr>,
            Inr (Create_entry (phone_number flow)
                   [(CONF_TOKEN, Some t),
                    (CONF_IMEI, imei flow),
                    (CONF_PHONE_NUMBER, phone_number flow)]))"
  using assms by (simp add: validate_one_time_password_def Let_def)

text \<open>
  The two steps in a row: the phone number is entered and accepted, then the OTP. The
  entry holds the token of the reply, the identifier generated in the first step and the
  phone number entered there.
\<close>

theorem otp_success_creates_entry_witness:
  "map_of [(CONF_OTP, ''1234'')] CONF_OTP = Some ''1234''
   \<and> api_validate_one_time_password (ex_api (Inr ex_device) (Inr (ex_response 0 0 (Some ''tok-77''))))
        (Some ''1234'')
        (imei (fst (async_step_user ex_constants
           (ex_api (Inr ex_device) (Inr (ex_response 0 0 (Some ''tok-77'')))) (\<lambda>u. None)
           ''2b950000012345678'' (Some [(CONF_PHONE_NUMBER, ''0501234567'')]) config_flow_init)))
        (phone_number (fst (async_step_user ex_constants
           (ex_api (Inr ex_device) (Inr (ex_response 0 0 (Some ''tok-77'')))) (\<lambda>u. None)
           ''2b950000012345678'' (Some [(CONF_PHONE_NUMBER, ''0501234567'')]) config_flow_init)))
      = Inr (ex_response 0 0 (Some ''tok-77''))
   \<and> ATTR_RES (ex_response 0 0 (Some ''tok-77'')) = STATUS_SUCCESS ex_constants
   \<and> ATTR_TOKEN (ex_response 0 0 (Some ''tok-77'')) = Some ''tok-77''
   \<and> snd (async_step_one_time_password ex_constants
             (ex_api (Inr ex_device) (Inr (ex_response 0 0 (Some ''tok-77''))))
             (Some [(CONF_OTP, ''1234'')]) None
             (fst (async_step_user ex_constants
                (ex_api (Inr ex_device) (Inr (ex_response 0 0 (Some ''tok-77'')))) (\<lambda>u. None)
                ''2b950000012345678'' (Some [(CONF_PHONE_NUMBER, ''0501234567'')])
                config_flow_init)))
      = Inr (Create_entry (Some ''0501234567'')
               [(CONF_TOKEN, Some ''tok-77''),
                (CONF_IMEI, Some ''2b950000012345678''),
                (CONF_PHONE_NUMBER, Some ''0501234567'')])"
proof -
  let ?resp = "ex_response 0 0 (Some ''tok-77'')"
  let ?api = "ex_api (Inr ex_device) (Inr ?resp)"
  let ?flow = "fst (async_step_user ex_constants ?api (\<lambda>u. None) ''2b950000012345678''
                      (Some [(CONF_PHONE_NUMBER, ''0501234567'')]) config_flow_init)"
  have p1: "map_of [(CONF_PHONE_NUMBER, ''0501234567'')] CONF_PHONE_NUMBER = Some ''0501234567''"
    by simp
  have p2: "unique_id config_flow_init = None
             \<longrightarrow> (\<lambda>u. None) ''0501234567'' = (None :: string option)"
    by simp
  have p3: "api_generate_new_token ?api (Some ''0501234567'') (Some ''2b950000012345678'')
             = Inr ?resp"
    by (rule ex_api_generate_new_token)
  have p4: "\<not> (ATTR_STATUS ?resp = STATUS_SUCCESS ex_constants
              \<and> ATTR_RES ?resp \<noteq> STATUS_SUCCESS ex_constants)"
    by (simp add: ex_response_def ex_constants_fields)
  have flow: "phone_number ?flow = Some ''0501234567''" "imei ?flow = Some ''2b950000012345678''"
    using phone_step_advances [OF p1 p2 p3 p4] by (simp_all add: async_step_user_def)
  have 1: "map_of [(CONF_OTP, ''1234'')] CONF_OTP = Some ''1234''" by simp
  have 2: "api_validate_one_time_password ?api (Some ''1234'') (imei ?flow) (phone_number ?flow)
             = Inr ?resp"
    by (rule ex_api_validate_one_time_password)
  have 3: "ATTR_RES ?resp = STATUS_SUCCESS ex_constants"
    by (simp add: ex_response_def ex_constants_fields)
  have 4: "ATTR_TOKEN ?resp = Some ''tok-77''" by (simp add: ex_response_def)
  have 5: "snd (async_step_one_time_password ex_constants ?api (Some [(CONF_OTP, ''1234'')]) None
                  ?flow)
      = Inr (Create_entry (Some ''0501234567'')
               [(CONF_TOKEN, Some ''tok-77''),
                (CONF_IMEI, Some ''2b950000012345678''),
                (CONF_PHONE_NUMBER, Some ''0501234567'')])"
    unfolding async_step_one_time_password_def
    using otp_success_creates_entry [OF 1 2 3 4] by (simp add: flow)
  from 1 2 3 4 5 show ?thesis by (intro conjI)
qed

end
